theory Spec2Isabelle
  imports Complex_Main "HOL-Library.Product_Lexorder"
begin

section \<open>Text primitives\<close>

text \<open>
  A Python \<open>str\<close> is modelled as a \<open>string\<close> whose characters are the code points
  0 to 255. The character classes below are the ones Python's \<open>str\<close> methods and the
  \<open>re\<close> module (on \<open>str\<close> patterns, without flags) use on that range.
\<close>

definition code_point :: "char \<Rightarrow> nat" where
  "code_point c = of_char c"

definition in_range :: "nat \<Rightarrow> nat \<Rightarrow> char \<Rightarrow> bool" where
  "in_range lo hi c = (lo \<le> code_point c \<and> code_point c \<le> hi)"

text \<open>\<open>\d\<close>: the decimal digits.\<close>

definition is_digit :: "char \<Rightarrow> bool" where
  "is_digit c = in_range 48 57 c"

text \<open>\<open>[A-Z]\<close>, \<open>[a-z]\<close>, \<open>[a-zA-Z]\<close> and \<open>[a-b]\<close>.\<close>

definition is_AZ :: "char \<Rightarrow> bool" where
  "is_AZ c = in_range 65 90 c"

definition is_az :: "char \<Rightarrow> bool" where
  "is_az c = in_range 97 122 c"

definition is_letter :: "char \<Rightarrow> bool" where
  "is_letter c = (is_az c \<or> is_AZ c)"

definition is_ab :: "char \<Rightarrow> bool" where
  "is_ab c = in_range 97 98 c"

text \<open>\<open>\s\<close>, and the characters \<open>str.strip\<close> and \<open>str.split\<close> treat as white space.\<close>

definition is_space :: "char \<Rightarrow> bool" where
  "is_space c = (in_range 9 13 c \<or> in_range 28 32 c \<or> code_point c = 133 \<or> code_point c = 160)"

text \<open>
  \<open>\w\<close>: the underscore and every character that is alphanumeric for Python (a letter,
  a decimal digit, or a character with a digit or numeric value).
\<close>

definition is_alnum :: "char \<Rightarrow> bool" where
  "is_alnum c = (is_digit c \<or> is_letter c \<or> code_point c \<in> {170, 178, 179, 181, 185, 186}
     \<or> in_range 188 190 c \<or> in_range 192 214 c \<or> in_range 216 246 c \<or> in_range 248 255 c)"

definition is_word :: "char \<Rightarrow> bool" where
  "is_word c = (is_alnum c \<or> c = CHR ''_'')"

text \<open>\<open>str.lower\<close> and \<open>str.upper\<close> (the latter is only applied to a match of \<open>[a-z]\<close>).\<close>

definition lower_char :: "char \<Rightarrow> char" where
  "lower_char c =
     (if in_range 65 90 c \<or> (in_range 192 222 c \<and> code_point c \<noteq> 215)
      then char_of (code_point c + 32) else c)"

definition lower :: "string \<Rightarrow> string" where
  "lower s = map lower_char s"

definition upper_az :: "char \<Rightarrow> char" where
  "upper_az c = (if is_az c then char_of (code_point c - 32) else c)"

text \<open>\<open>s.startswith(p)\<close>, \<open>t in s\<close> and \<open>s.find(t)\<close>.\<close>

fun starts_with :: "string \<Rightarrow> string \<Rightarrow> bool" where
  "starts_with [] s = True"
| "starts_with (p # ps) [] = False"
| "starts_with (p # ps) (c # cs) = (p = c \<and> starts_with ps cs)"

fun py_in :: "string \<Rightarrow> string \<Rightarrow> bool" where
  "py_in t [] = starts_with t []"
| "py_in t (c # cs) = (starts_with t (c # cs) \<or> py_in t cs)"

fun find_from :: "nat \<Rightarrow> string \<Rightarrow> string \<Rightarrow> nat option" where
  "find_from i t [] = (if starts_with t [] then Some i else None)"
| "find_from i t (c # cs) = (if starts_with t (c # cs) then Some i else find_from (Suc i) t cs)"

definition py_find :: "string \<Rightarrow> string \<Rightarrow> nat option" where
  "py_find s t = find_from 0 t s"

text \<open>\<open>any(t in s for t in ts)\<close>.\<close>

definition any_in :: "string list \<Rightarrow> string \<Rightarrow> bool" where
  "any_in ts s = list_ex (\<lambda>t. py_in t s) ts"

text \<open>\<open>sep.join(xs)\<close>, \<open>str(n)\<close> and \<open>int(s)\<close> for a non-negative decimal numeral.\<close>

fun join :: "string \<Rightarrow> string list \<Rightarrow> string" where
  "join sep [] = []"
| "join sep [x] = x"
| "join sep (x # y # ys) = x @ sep @ join sep (y # ys)"

fun str_nat :: "nat \<Rightarrow> string" where
  "str_nat n = (if n < 10 then [char_of (48 + n)] else str_nat (n div 10) @ [char_of (48 + n mod 10)])"

definition int_of_digits :: "string \<Rightarrow> nat" where
  "int_of_digits s = foldl (\<lambda>a c. 10 * a + (code_point c - 48)) 0 s"

text \<open>\<open>s.strip()\<close> and \<open>s.split()\<close>.\<close>

definition strip :: "string \<Rightarrow> string" where
  "strip s = rev (dropWhile is_space (rev (dropWhile is_space s)))"

fun split_words :: "string \<Rightarrow> string \<Rightarrow> string list" where
  "split_words w [] = (if w = [] then [] else [w])"
| "split_words w (c # cs) =
     (if is_space c then (if w = [] then split_words [] cs else w # split_words [] cs)
      else split_words (w @ [c]) cs)"

definition split :: "string \<Rightarrow> string list" where
  "split s = split_words [] s"

section \<open>Regular expressions\<close>

text \<open>
  The fragment of Python's \<open>re\<close> syntax the modelled functions use: one character of a
  class, a literal, concatenation, ordered alternation, a greedy optional part, a greedy
  bounded or unbounded repetition of a character class, and a numbered capturing group.
  The matcher lists the ways a pattern matches a prefix of the input in the order in which
  Python's backtracking tries them; each way is the groups captured and the rest of the
  input.
\<close>

datatype regex =
    Chr "char \<Rightarrow> bool"
  | Lit string
  | Seq regex regex
  | Alt regex regex
  | Opt regex
  | Many nat "nat option" "char \<Rightarrow> bool"
  | Grp nat regex

type_synonym captures = "(nat \<times> string) list"

definition many_rests :: "nat \<Rightarrow> nat option \<Rightarrow> (char \<Rightarrow> bool) \<Rightarrow> string \<Rightarrow> string list" where
  "many_rests lo hi p s =
     (let run = length (takeWhile p s);
          k = (case hi of None \<Rightarrow> run | Some n \<Rightarrow> min n run)
      in map (\<lambda>j. drop j s) (rev [lo ..< Suc k]))"

fun rmatch :: "regex \<Rightarrow> captures \<Rightarrow> string \<Rightarrow> (captures \<times> string) list" where
  "rmatch (Chr p) g s = (case s of [] \<Rightarrow> [] | c # r \<Rightarrow> if p c then [(g, r)] else [])"
| "rmatch (Lit l) g s = (if starts_with l s then [(g, drop (length l) s)] else [])"
| "rmatch (Seq a b) g s = concat (map (\<lambda>x. rmatch b (fst x) (snd x)) (rmatch a g s))"
| "rmatch (Alt a b) g s = rmatch a g s @ rmatch b g s"
| "rmatch (Opt a) g s = rmatch a g s @ [(g, s)]"
| "rmatch (Many lo hi p) g s = map (Pair g) (many_rests lo hi p s)"
| "rmatch (Grp i a) g s =
     map (\<lambda>x. ((i, take (length s - length (snd x)) s) # fst x, snd x)) (rmatch a g s)"

text \<open>\<open>re.search\<close>: the first way of matching at the leftmost position that has one.\<close>

fun re_search :: "regex \<Rightarrow> string \<Rightarrow> captures option" where
  "re_search r [] = (case rmatch r [] [] of [] \<Rightarrow> None | x # _ \<Rightarrow> Some (fst x))"
| "re_search r (c # s) =
     (case rmatch r [] (c # s) of [] \<Rightarrow> re_search r s | x # _ \<Rightarrow> Some (fst x))"

definition matches :: "regex \<Rightarrow> string \<Rightarrow> bool" where
  "matches r s = (re_search r s \<noteq> None)"

text \<open>\<open>m.group(i)\<close>; \<open>None\<close> when the group took no part in the match.\<close>

definition group :: "captures \<Rightarrow> nat \<Rightarrow> string option" where
  "group g i = map_of g i"

fun alts :: "string list \<Rightarrow> regex" where
  "alts [] = Chr (\<lambda>c. False)"
| "alts [x] = Lit x"
| "alts (x # y # ys) = Alt (Lit x) (alts (y # ys))"

fun seqs :: "regex list \<Rightarrow> regex" where
  "seqs [] = Lit []"
| "seqs [r] = r"
| "seqs (r # q # rs) = Seq r (seqs (q # rs))"

section \<open>The validity scorer\<close>

text \<open>
  \<open>is_valid_product\<close> keeps a running \<open>confidence_score\<close> and a list \<open>reason\<close>; each
  check below is one numbered block of the function, taking the pair and returning it
  updated.
\<close>

type_synonym verdict = "int \<times> string list"

definition adjust :: "int \<Rightarrow> string \<Rightarrow> verdict \<Rightarrow> verdict" where
  "adjust d r v = (fst v + d, snd v @ [r])"

text \<open>1. Sufficient length.\<close>

definition check_length :: "string \<Rightarrow> verdict \<Rightarrow> verdict" where
  "check_length product_name v =
     (if length product_name < 6 then adjust (- 3) ''Too short for a complete product name'' v
      else (fst v + 1, snd v))"

text \<open>2. Letters and numbers.\<close>

definition check_letters_numbers :: "string \<Rightarrow> verdict \<Rightarrow> verdict" where
  "check_letters_numbers product_name v =
     (let has_letters = matches (Chr is_letter) product_name;
          has_numbers = matches (Chr is_digit) product_name
      in if has_letters \<and> has_numbers then adjust 2 ''Contains both letters and numbers'' v
         else if \<not> has_numbers then adjust (- 1) ''Missing model numbers'' v
         else v)"

text \<open>3. Brand and model pattern.\<close>

definition brands :: "string list" where
  "brands = [''samsung'', ''apple'', ''sony'', ''lg'', ''microsoft'', ''dell'', ''hp'',
     ''lenovo'', ''asus'', ''acer'', ''alienware'', ''msi'', ''gigabyte'', ''dyson'',
     ''intel'', ''amd'', ''nvidia'', ''corsair'', ''logitech'', ''razer'', ''bose'',
     ''sony'', ''jbl'', ''shure'', ''shark'', ''bosch'', ''miele'', ''canon'', ''nikon'']"

definition capitalized_re :: regex where
  "capitalized_re = Seq (Chr is_AZ) (Many 1 None is_az)"

definition check_brand :: "string \<Rightarrow> string \<Rightarrow> verdict \<Rightarrow> verdict" where
  "check_brand product_name product_lower v =
     (if any_in brands product_lower then adjust 2 ''Contains known brand name'' v
      else if matches capitalized_re product_name
           then adjust 1 ''Contains capitalized brand-like words'' v
           else adjust (- 1) ''No identifiable brand'' v)"

text \<open>4. Product-specific validation: graphics cards.\<close>

definition is_gpu_re :: regex where
  "is_gpu_re = seqs [Grp 1 (alts [''rtx'', ''gtx'', ''radeon rx'', ''arc'']),
     Many 0 None is_space, Opt (Chr is_ab), Many 3 (Some 4) is_digit]"

definition nvidia_re :: regex where
  "nvidia_re = seqs [Grp 1 (alts [''rtx'', ''gtx'']), Many 0 None is_space,
     Grp 2 (Many 4 (Some 4) is_digit)]"

definition intel_re :: regex where
  "intel_re = seqs [Lit ''arc'', Many 0 None is_space, Opt (Grp 1 (Chr is_az)),
     Grp 2 (Many 3 (Some 3) is_digit)]"

definition amd_re :: regex where
  "amd_re = seqs [Grp 1 (alts [''radeon rx'', ''rx'']), Many 0 None is_space,
     Grp 2 (Many 4 (Some 4) is_digit)]"

definition valid_arc_models :: "nat list" where
  "valid_arc_models = [770, 750, 580, 380, 350, 325, 310]"

text \<open>
  In the three patterns group 2 takes part in every match, so the branch for a missing
  group 2 is never taken.
\<close>

definition check_nvidia :: "string \<Rightarrow> verdict \<Rightarrow> verdict" where
  "check_nvidia product_lower v =
     (case re_search nvidia_re product_lower of
        None \<Rightarrow> v
      | Some g \<Rightarrow>
          (case group g 2 of
             None \<Rightarrow> v
           | Some d \<Rightarrow>
               (let model_num = int_of_digits d
                in if model_num \<ge> 5000
                   then adjust (- 3)
                     (''Likely future/non-existent NVIDIA GPU model: '' @ str_nat model_num) v
                   else adjust 2 ''Valid NVIDIA GPU model number range'' v)))"

definition check_intel :: "string \<Rightarrow> verdict \<Rightarrow> verdict" where
  "check_intel product_lower v =
     (case re_search intel_re product_lower of
        None \<Rightarrow> v
      | Some g \<Rightarrow>
          (let series = (case group g 1 of None \<Rightarrow> [] | Some t \<Rightarrow> map upper_az t)
           in if series \<noteq> [] \<and> series \<noteq> ''A''
              then adjust (- 3)
                (''Likely non-existent Intel Arc series: '' @ series @ ''-series'') v
              else if series = []
              then adjust (- 1) ''Missing Intel Arc series letter (should be A-series)'' v
              else (case group g 2 of
                      None \<Rightarrow> v
                    | Some d \<Rightarrow>
                        (let model_num = int_of_digits d
                         in if model_num \<notin> set valid_arc_models
                            then adjust (- 2)
                              (''Unusual Intel Arc model number: '' @ str_nat model_num) v
                            else adjust 2 ''Valid Intel Arc GPU model'' v))))"

definition check_amd :: "string \<Rightarrow> verdict \<Rightarrow> verdict" where
  "check_amd product_lower v =
     (case re_search amd_re product_lower of
        None \<Rightarrow> v
      | Some g \<Rightarrow>
          (case group g 2 of
             None \<Rightarrow> v
           | Some d \<Rightarrow>
               (let model_num = int_of_digits d
                in if model_num \<ge> 8000
                   then adjust (- 3)
                     (''Likely future/non-existent AMD GPU model: '' @ str_nat model_num) v
                   else adjust 2 ''Valid AMD GPU model number range'' v)))"

definition check_memory :: "string \<Rightarrow> verdict \<Rightarrow> verdict" where
  "check_memory product_lower v =
     (if py_in ''gb'' product_lower then adjust 1 ''Includes memory specification'' v else v)"

definition check_gpu :: "string \<Rightarrow> verdict \<Rightarrow> verdict" where
  "check_gpu product_lower v =
     (if matches is_gpu_re product_lower
      then check_memory product_lower
             (check_amd product_lower (check_intel product_lower (check_nvidia product_lower v)))
      else v)"

text \<open>4. Product-specific validation: complete computers.\<close>

definition system_terms :: "string list" where
  "system_terms = [''system'', ''desktop'', ''tower'', ''pc'', ''computer'', ''gaming pc'']"

definition prebuilt_brands :: "string list" where
  "prebuilt_brands = [''alienware'', ''hp omen'', ''corsair'', ''lenovo legion'', ''asus rog'',
     ''msi'', ''acer predator'']"

definition standalone_gpu_re :: regex where
  "standalone_gpu_re = seqs [Grp 1 (alts [''rtx'', ''gtx'', ''radeon'']), Many 0 None is_space,
     Many 4 (Some 4) is_digit]"

definition system_re :: regex where
  "system_re = Grp 1 (alts [''system'', ''desktop'', ''tower'', ''pc'', ''computer'', ''gaming pc''])"

definition component_terms :: "string list" where
  "component_terms = [''ryzen'', ''core i'', ''intel'', ''processor'', ''gpu'', ''card'', ''ram'']"

definition check_system_terms :: "string \<Rightarrow> verdict \<Rightarrow> verdict" where
  "check_system_terms product_lower v =
     (if any_in system_terms product_lower then adjust 2 ''Contains system-level terms'' v else v)"

definition check_prebuilt :: "string \<Rightarrow> verdict \<Rightarrow> verdict" where
  "check_prebuilt product_lower v =
     (if any_in prebuilt_brands product_lower then adjust 3 ''Known prebuilt system brand'' v
      else v)"

definition check_standalone_gpu :: "string \<Rightarrow> string \<Rightarrow> verdict \<Rightarrow> verdict" where
  "check_standalone_gpu product_name product_lower v =
     (if matches standalone_gpu_re product_lower \<and> \<not> matches system_re product_lower
      then (if length product_name < 20
            then adjust (- 3) ''Appears to be just a GPU, not a complete system'' v
            else v)
      else v)"

definition check_component :: "string \<Rightarrow> string \<Rightarrow> verdict \<Rightarrow> verdict" where
  "check_component product_name product_lower v =
     (if any_in component_terms product_lower
      then (if length product_name < 15 \<and> \<not> matches system_re product_lower
            then adjust (- 2) ''Appears to be just a component, not a complete system'' v
            else v)
      else v)"

definition check_computer :: "string \<Rightarrow> string \<Rightarrow> verdict \<Rightarrow> verdict" where
  "check_computer product_name product_lower v =
     check_component product_name product_lower
       (check_standalone_gpu product_name product_lower
          (check_prebuilt product_lower (check_system_terms product_lower v)))"

definition check_category :: "string \<Rightarrow> string \<Rightarrow> string \<Rightarrow> verdict \<Rightarrow> verdict" where
  "check_category product_name product_lower product_type_lower v =
     (if py_in ''graphics'' product_type_lower \<or> py_in ''gpu'' product_type_lower
         \<or> py_in ''gaming'' product_type_lower
      then check_gpu product_lower v
      else if py_in ''computer'' product_type_lower \<or> py_in ''pc'' product_type_lower
         \<or> py_in ''desktop'' product_type_lower \<or> py_in ''gaming pc'' product_type_lower
      then check_computer product_name product_lower v
      else v)"

text \<open>5. Context-based validation.\<close>

definition ownership_terms :: "string list" where
  "ownership_terms = [''i bought'', ''i own'', ''i use'', ''i have'', ''purchased'', ''using'']"

definition recommend_terms :: "string list" where
  "recommend_terms = [''recommend'', ''suggested'', ''best'', ''top'', ''great'', ''excellent'']"

definition check_ownership :: "string \<Rightarrow> string \<Rightarrow> verdict \<Rightarrow> verdict" where
  "check_ownership product_lower context_lower v =
     (if any_in ownership_terms context_lower
      then (case py_find context_lower product_lower of
              None \<Rightarrow> v
            | Some product_index \<Rightarrow>
                (let pre_text = drop (product_index - 50) (take product_index context_lower)
                 in if any_in ownership_terms pre_text
                    then adjust 3 ''Product mentioned in ownership context'' v
                    else v))
      else v)"

definition check_recommend :: "string \<Rightarrow> verdict \<Rightarrow> verdict" where
  "check_recommend context_lower v =
     (if any_in recommend_terms context_lower
      then adjust 1 ''Product mentioned in recommendation context'' v
      else v)"

definition check_context :: "string \<Rightarrow> string \<Rightarrow> verdict \<Rightarrow> verdict" where
  "check_context product_lower context_text v =
     (if context_text \<noteq> []
      then (let context_lower = lower context_text
            in check_recommend context_lower (check_ownership product_lower context_lower v))
      else v)"

text \<open>The running pair after all five blocks, and the returned triple.\<close>

definition confidence :: "string \<Rightarrow> string \<Rightarrow> string \<Rightarrow> verdict" where
  "confidence product_name context_text product_type =
     (let product_lower = lower product_name;
          product_type_lower = lower product_type
      in check_context product_lower context_text
           (check_category product_name product_lower product_type_lower
              (check_brand product_name product_lower
                 (check_letters_numbers product_name
                    (check_length product_name (0, []))))))"

definition is_valid_product :: "string \<Rightarrow> string \<Rightarrow> string \<Rightarrow> bool \<times> int \<times> string" where
  "is_valid_product product_name context_text product_type =
     (let v = confidence product_name context_text product_type
      in (fst v \<ge> 3, fst v, join '', '' (snd v)))"

section \<open>Evidence, mentions and external capabilities\<close>

text \<open>
  The scraped evidence: a forum thread with its comments, and a video. A key the code
  reads with \<open>.get(key, default)\<close> is a field here, holding the default when the key is
  absent.
\<close>

record comment =
  c_text :: string
  c_upvotes :: int

record thread =
  t_title :: string
  t_url :: string
  t_comments :: "comment list"

record video =
  v_transcript :: string
  v_title :: string
  v_url :: string
  v_views :: int
  v_likes :: int

text \<open>
  A mention is a dictionary. The keys common to both streams are the fields of \<open>mention\<close>;
  a forum mention adds \<open>upvotes\<close>, a video mention adds \<open>views\<close>, \<open>likes\<close> and \<open>title\<close>.
  The key \<open>score\<close> is set by the scoring loop and read with \<open>.get("score", 0)\<close>, so it is
  0 in a mention just built. Python floats are modelled as exact rationals.
\<close>

record mention =
  product :: string
  sentiment :: rat
  source :: string
  description :: string
  validity_score :: int
  validity_reason :: string
  product_type :: string
  attributes :: "string list"
  score :: rat

record reddit_mention = mention +
  upvotes :: int

record youtube_mention = mention +
  views :: int
  likes :: int
  title :: string

text \<open>
  The functions the pipeline calls whose results it only stores or passes on: the language
  model behind \<open>extract_product_models\<close>, \<open>analyze_sentiment\<close> and
  \<open>generate_ai_description\<close>, and the text helpers \<open>extract_model_from_text\<close> (which
  returns a name or \<open>None\<close>) and \<open>generate_description\<close>. Every theorem below holds for
  every choice of these functions.
\<close>

record capabilities =
  extract_product_models :: "string \<Rightarrow> string list"
  analyze_sentiment :: "string \<Rightarrow> rat"
  extract_model_from_text :: "string \<Rightarrow> string \<Rightarrow> string option"
  generate_description :: "string \<Rightarrow> string \<Rightarrow> string list \<Rightarrow> string"
  generate_ai_description :: "string \<Rightarrow> string \<Rightarrow> string \<Rightarrow> string list \<Rightarrow> string"

section \<open>The forum pipeline\<close>

text \<open>The body of \<open>for model in models\<close>: validate, skip a negative score, else append.\<close>

definition add_model ::
  "capabilities \<Rightarrow> string \<Rightarrow> string list \<Rightarrow> string \<Rightarrow> string \<Rightarrow> int \<Rightarrow> rat
     \<Rightarrow> reddit_mention list \<Rightarrow> string \<Rightarrow> reddit_mention list" where
  "add_model cap ptype attrs thread_url txt ups sent product_mentions model =
     (case is_valid_product model txt ptype of
        (is_valid, val_score, val_reason) \<Rightarrow>
          if val_score < 0 then product_mentions
          else product_mentions @
            [\<lparr>product = model, sentiment = sent, source = thread_url,
              description = generate_description cap txt model attrs,
              validity_score = val_score, validity_reason = val_reason,
              product_type = ptype, attributes = attrs, score = 0, upvotes = ups\<rparr>])"

text \<open>The body of the first \<open>for comment in all_comments\<close>.\<close>

definition extract_from_comment ::
  "capabilities \<Rightarrow> string \<Rightarrow> string list \<Rightarrow> string
     \<Rightarrow> reddit_mention list \<Rightarrow> comment \<Rightarrow> reddit_mention list" where
  "extract_from_comment cap ptype attrs thread_url product_mentions c =
     (let txt = c_text c; ups = c_upvotes c; models = extract_product_models cap txt
      in if models \<noteq> []
         then foldl (add_model cap ptype attrs thread_url txt ups (analyze_sentiment cap txt))
                product_mentions models
         else product_mentions)"

text \<open>The body of the second \<open>for comment in all_comments\<close>.\<close>

definition pattern_from_comment ::
  "capabilities \<Rightarrow> string \<Rightarrow> string list \<Rightarrow> string
     \<Rightarrow> reddit_mention list \<Rightarrow> comment \<Rightarrow> reddit_mention list" where
  "pattern_from_comment cap ptype attrs thread_url product_mentions c =
     (let txt = c_text c; ups = c_upvotes c
      in case extract_model_from_text cap txt ptype of
           None \<Rightarrow> product_mentions
         | Some model_name \<Rightarrow>
             if model_name = [] then product_mentions
             else (case is_valid_product model_name txt ptype of
                     (is_valid, val_score, val_reason) \<Rightarrow>
                       if val_score < 0 then product_mentions
                       else if \<not> list_ex (\<lambda>m. lower (product m) = lower model_name) product_mentions
                       then product_mentions @
                         [\<lparr>product = model_name, sentiment = analyze_sentiment cap txt,
                           source = thread_url,
                           description = generate_description cap txt model_name attrs,
                           validity_score = val_score, validity_reason = val_reason,
                           product_type = ptype, attributes = attrs, score = 0, upvotes = ups\<rparr>]
                       else product_mentions))"

text \<open>
  The body of \<open>for thread in reddit_data.get("threads", [])\<close>: the first loop over the
  comments, then, if fewer than two mentions have been collected so far, the second.
\<close>

definition model_pass ::
  "capabilities \<Rightarrow> string \<Rightarrow> string list \<Rightarrow> reddit_mention list \<Rightarrow> thread
     \<Rightarrow> reddit_mention list" where
  "model_pass cap ptype attrs product_mentions t =
     foldl (extract_from_comment cap ptype attrs (t_url t)) product_mentions (t_comments t)"

definition pattern_pass ::
  "capabilities \<Rightarrow> string \<Rightarrow> string list \<Rightarrow> reddit_mention list \<Rightarrow> thread
     \<Rightarrow> reddit_mention list" where
  "pattern_pass cap ptype attrs product_mentions t =
     foldl (pattern_from_comment cap ptype attrs (t_url t)) product_mentions (t_comments t)"

definition process_thread ::
  "capabilities \<Rightarrow> string \<Rightarrow> string list \<Rightarrow> reddit_mention list \<Rightarrow> thread
     \<Rightarrow> reddit_mention list" where
  "process_thread cap ptype attrs product_mentions t =
     (let found = model_pass cap ptype attrs product_mentions t
      in if length found < 2 then pattern_pass cap ptype attrs found t else found)"

definition collect_reddit ::
  "capabilities \<Rightarrow> thread list \<Rightarrow> string \<Rightarrow> string list \<Rightarrow> reddit_mention list" where
  "collect_reddit cap threads ptype attrs = foldl (process_thread cap ptype attrs) [] threads"

text \<open>\<open>product_type_terms\<close>, and the bonus loop over it.\<close>

definition product_type_terms :: "string \<Rightarrow> string list \<Rightarrow> string list" where
  "product_type_terms ptype attrs = lower ptype # map lower (filter (\<lambda>attr. attr \<noteq> []) attrs)"

definition term_bonus :: "string list \<Rightarrow> string \<Rightarrow> rat \<Rightarrow> rat" where
  "term_bonus terms product_name sc =
     foldl (\<lambda>acc t. if py_in t product_name then acc + 1 else acc) sc terms"

definition validity_impact :: "int \<Rightarrow> int" where
  "validity_impact v = min 5 (max 0 v)"

text \<open>The body of the forum scoring loop.\<close>

definition score_reddit :: "string list \<Rightarrow> reddit_mention \<Rightarrow> reddit_mention" where
  "score_reddit terms m =
     (let base_score = sentiment m * 5 + min 5 (of_int (upvotes m) / 10);
          sc0 = base_score + of_int (validity_impact (validity_score m) * 2);
          sc1 = term_bonus terms (lower (product m)) sc0;
          sc2 = (if length (product m) > 8 then sc1 + 1 else sc1)
      in m\<lparr>score := sc2\<rparr>)"

text \<open>
  \<open>list.sort(key=..., reverse=True)\<close>: a stable sort into descending order of the key,
  which is the stable ascending sort of the reversed list, reversed.
\<close>

definition sort_desc :: "('a \<Rightarrow> 'k::linorder) \<Rightarrow> 'a list \<Rightarrow> 'a list" where
  "sort_desc key xs = rev (sort_key key (rev xs))"

text \<open>
  \<open>unique_products\<close> is a dictionary, which keeps its keys in the order of their first
  insertion: an association list. \<open>dict_get\<close> is the lookup, \<open>dict_set\<close> the assignment
  \<open>d[k] = v\<close>, and \<open>dict_values\<close> is \<open>list(d.values())\<close>.
\<close>

fun dict_get :: "('k \<times> 'v) list \<Rightarrow> 'k \<Rightarrow> 'v option" where
  "dict_get [] k = None"
| "dict_get ((k', v) # d) k = (if k' = k then Some v else dict_get d k)"

fun dict_set :: "('k \<times> 'v) list \<Rightarrow> 'k \<Rightarrow> 'v \<Rightarrow> ('k \<times> 'v) list" where
  "dict_set [] k v = [(k, v)]"
| "dict_set ((k', v') # d) k v = (if k' = k then (k, v) # d else (k', v') # dict_set d k v)"

definition dict_values :: "('k \<times> 'v) list \<Rightarrow> 'v list" where
  "dict_values d = map snd d"

text \<open>The body of the duplicate-removal loop, for a given key function.\<close>

definition keep_best ::
  "('a mention_scheme \<Rightarrow> string) \<Rightarrow> (string \<times> 'a mention_scheme) list \<Rightarrow> 'a mention_scheme
     \<Rightarrow> (string \<times> 'a mention_scheme) list" where
  "keep_best key unique_products m =
     (let product_key = key m
      in case dict_get unique_products product_key of
           None \<Rightarrow> dict_set unique_products product_key m
         | Some kept \<Rightarrow>
             if score m > score kept then dict_set unique_products product_key m
             else unique_products)"

definition remove_duplicates ::
  "('a mention_scheme \<Rightarrow> string) \<Rightarrow> 'a mention_scheme list \<Rightarrow> 'a mention_scheme list" where
  "remove_duplicates key ms = dict_values (foldl (keep_best key) [] ms)"

text \<open>The forum key: \<open>re.sub(r'[^a-zA-Z0-9]', '', mention["product"].lower())\<close>.\<close>

definition normalize_name :: "string \<Rightarrow> string" where
  "normalize_name name = filter (\<lambda>c. is_letter c \<or> is_digit c) (lower name)"

definition reddit_key :: "'a mention_scheme \<Rightarrow> string" where
  "reddit_key m = normalize_name (product m)"

definition process_reddit_data ::
  "capabilities \<Rightarrow> thread list \<Rightarrow> string \<Rightarrow> string list \<Rightarrow> reddit_mention list" where
  "process_reddit_data cap threads ptype attrs =
     (let product_mentions = collect_reddit cap threads ptype attrs;
          scored = map (score_reddit (product_type_terms ptype attrs)) product_mentions;
          sorted_mentions = sort_desc (\<lambda>x. (score x, sentiment x, upvotes x)) scored
      in remove_duplicates reddit_key sorted_mentions)"

section \<open>The video pipeline\<close>

definition add_video_model ::
  "capabilities \<Rightarrow> string \<Rightarrow> string list \<Rightarrow> video \<Rightarrow> rat
     \<Rightarrow> youtube_mention list \<Rightarrow> string \<Rightarrow> youtube_mention list" where
  "add_video_model cap ptype attrs v sent product_mentions model =
     (case is_valid_product model (v_transcript v) ptype of
        (is_valid, val_score, val_reason) \<Rightarrow>
          if val_score < 0 then product_mentions
          else product_mentions @
            [\<lparr>product = model, sentiment = sent, source = v_url v,
              description = generate_description cap (v_transcript v) model attrs,
              validity_score = val_score, validity_reason = val_reason,
              product_type = ptype, attributes = attrs, score = 0,
              views = v_views v, likes = v_likes v, title = v_title v\<rparr>])"

definition process_video ::
  "capabilities \<Rightarrow> string \<Rightarrow> string list \<Rightarrow> youtube_mention list \<Rightarrow> video
     \<Rightarrow> youtube_mention list" where
  "process_video cap ptype attrs product_mentions v =
     (let transcript = v_transcript v; models = extract_product_models cap transcript
      in if models \<noteq> []
         then foldl (add_video_model cap ptype attrs v (analyze_sentiment cap transcript))
                product_mentions models
         else product_mentions)"

definition collect_youtube ::
  "capabilities \<Rightarrow> video list \<Rightarrow> string \<Rightarrow> string list \<Rightarrow> youtube_mention list" where
  "collect_youtube cap videos ptype attrs = foldl (process_video cap ptype attrs) [] videos"

definition score_youtube :: "string list \<Rightarrow> youtube_mention \<Rightarrow> youtube_mention" where
  "score_youtube terms m =
     (let base_score = sentiment m * 3 + min 3 (of_int (likes m) / 100)
                         + min 4 (of_int (views m) / 10000);
          sc0 = base_score + of_int (validity_impact (validity_score m) * 2);
          sc1 = (if py_in (lower (product m)) (lower (title m)) then sc0 + 3 else sc0);
          sc2 = term_bonus terms (lower (product m)) sc1
      in m\<lparr>score := sc2\<rparr>)"

text \<open>The video key: \<open>mention["product"].lower().strip()\<close>.\<close>

definition youtube_key :: "'a mention_scheme \<Rightarrow> string" where
  "youtube_key m = strip (lower (product m))"

definition process_youtube_data ::
  "capabilities \<Rightarrow> video list \<Rightarrow> string \<Rightarrow> string list \<Rightarrow> youtube_mention list" where
  "process_youtube_data cap videos ptype attrs =
     (let product_mentions = collect_youtube cap videos ptype attrs;
          scored = map (score_youtube (product_type_terms ptype attrs)) product_mentions;
          sorted_mentions = sort_desc score scored
      in remove_duplicates youtube_key sorted_mentions)"

section \<open>The category filter and the formatter\<close>

record recommendation =
  r_product :: string
  r_description :: string
  r_sources :: "string list"
  r_buy_link :: string
  r_image_url :: string
  r_validity_score :: int
  r_attributes :: "string list"

datatype error = IndexError

definition system_categories :: "string list" where
  "system_categories = [''computer'', ''pc'', ''desktop'', ''gaming pc'', ''laptop'']"

definition is_system_search :: "'a mention_scheme list \<Rightarrow> bool" where
  "is_system_search product_mentions =
     (case product_mentions of
        [] \<Rightarrow> False
      | m # _ \<Rightarrow>
          if product_type m \<noteq> [] then any_in system_categories (lower (product_type m))
          else False)"

definition filter_gpu_re :: regex where
  "filter_gpu_re = seqs [Grp 1 (alts [''rtx'', ''gtx'', ''radeon rx'', ''arc'']),
     Many 0 None is_space, Opt (Chr is_az), Many 3 (Some 4) is_digit]"

definition filter_system_re :: regex where
  "filter_system_re =
     Grp 1 (alts [''system'', ''desktop'', ''tower'', ''pc'', ''computer'', ''gaming pc'', ''laptop''])"

definition filter_component_terms :: "string list" where
  "filter_component_terms = [''ryzen'', ''core i'', ''intel'', ''amd'', ''processor'', ''cpu'',
     ''gpu'', ''card'', ''ram'', ''memory'']"

definition system_brands :: "string list" where
  "system_brands = [''alienware'', ''hp omen'', ''dell xps'', ''lenovo legion'', ''asus rog'',
     ''corsair'', ''msi'', ''acer predator'', ''ibuypower'', ''cyberpower'']"

text \<open>
  The flag \<open>is_component\<close> of the partition loop, as the three \<open>if\<close> statements assign it
  in turn; the argument is the lowercased name.
\<close>

definition is_component :: "string \<Rightarrow> bool" where
  "is_component product_name =
     (let c0 = False;
          c1 = (if matches filter_gpu_re product_name \<and> \<not> matches filter_system_re product_name
                then (if length product_name < 20 then True else c0)
                else c0);
          c2 = (if any_in filter_component_terms product_name
                then (if \<not> matches filter_system_re product_name then True else c1)
                else c1);
          c3 = (if any_in system_brands product_name then False else c2)
      in c3)"

definition systems :: "'a mention_scheme list \<Rightarrow> 'a mention_scheme list" where
  "systems product_mentions = filter (\<lambda>p. \<not> is_component (lower (product p))) product_mentions"

definition components :: "'a mention_scheme list \<Rightarrow> 'a mention_scheme list" where
  "components product_mentions = filter (\<lambda>p. is_component (lower (product p))) product_mentions"

definition valid_products :: "'a mention_scheme list \<Rightarrow> 'a mention_scheme list" where
  "valid_products ps = filter (\<lambda>p. validity_score p \<ge> 3) ps"

text \<open>
  The choice of \<open>selected_products\<close>. The flag tells whether \<open>selected_products\<close> is the
  list object \<open>product_mentions\<close> itself (the branches \<open>selected_products =
  product_mentions\<close>) or a new list: the sort that follows is in place, so in the first case
  it reorders \<open>product_mentions\<close> too.
\<close>

definition select_products :: "'a mention_scheme list \<Rightarrow> 'a mention_scheme list \<times> bool" where
  "select_products product_mentions =
     (if is_system_search product_mentions
      then (if systems product_mentions \<noteq> []
            then (if valid_products (systems product_mentions) \<noteq> []
                  then (valid_products (systems product_mentions), False)
                  else (systems product_mentions, False))
            else (if valid_products product_mentions \<noteq> []
                  then (valid_products product_mentions, False)
                  else (product_mentions, True)))
      else (if valid_products product_mentions \<noteq> []
            then (valid_products product_mentions, False)
            else (product_mentions, True)))"

text \<open>
  \<open>re.sub(r'[^\w\s\-]', '', s)\<close>, then \<open>re.sub(r'\s+', ' ', s)\<close> (the flag of
  \<open>collapse\<close> tells whether the previous character was white space), then \<open>strip\<close>.
\<close>

fun collapse :: "bool \<Rightarrow> string \<Rightarrow> string" where
  "collapse in_run [] = []"
| "collapse in_run (c # cs) =
     (if is_space c then (if in_run then collapse True cs else CHR '' '' # collapse True cs)
      else c # collapse False cs)"

definition sanitize :: "string \<Rightarrow> string" where
  "sanitize product_model =
     strip (collapse False (filter (\<lambda>c. is_word c \<or> is_space c \<or> c = CHR ''-'') product_model))"

text \<open>The attributes handed to the description writer.\<close>

definition request_attributes :: "'a mention_scheme \<Rightarrow> string list" where
  "request_attributes top_product =
     (let words = split (product_type top_product);
          attrs = (if length words > 1 then tl words else [])
      in if attributes top_product \<noteq> [] then attrs @ attributes top_product else attrs)"

definition plus_for_space :: "string \<Rightarrow> string" where
  "plus_for_space s = map (\<lambda>c. if c = CHR '' '' then CHR ''+'' else c) s"

definition generate_amazon_link :: "string \<Rightarrow> string" where
  "generate_amazon_link product_model =
     ''https://www.amazon.com/s?k='' @ plus_for_space product_model @ ''&tag=allurecomreco-20''"

definition generate_image_url :: "string \<Rightarrow> string" where
  "generate_image_url product_model =
     ''https://placehold.co/400x400/f5f5f5/333?text='' @ plus_for_space product_model"

text \<open>The source URLs: the body of the loop over \<open>product_mentions[1:5]\<close>, and the whole step.\<close>

definition add_source :: "string list \<Rightarrow> 'a mention_scheme \<Rightarrow> string list" where
  "add_source sources m =
     (if source m \<noteq> [] \<and> source m \<notin> set sources \<and> length sources < 3
      then sources @ [source m] else sources)"

definition collect_sources ::
  "'a mention_scheme \<Rightarrow> 'a mention_scheme list \<Rightarrow> string \<Rightarrow> string list" where
  "collect_sources top_product product_mentions src =
     (let s0 = (if source top_product \<noteq> [] \<and> source top_product \<notin> set []
                then [source top_product] else []);
          s1 = (if length product_mentions > 1
                then foldl add_source s0 (take 4 (drop 1 product_mentions)) else s0)
      in if s1 = []
         then (if src = ''reddit'' then [''https://www.reddit.com'']
               else if src = ''youtube'' then [''https://www.youtube.com'']
               else s1)
         else s1)"

text \<open>
  \<open>selected_products\<close> after \<open>selected_products.sort(key=score, reverse=True)\<close>, and
  \<open>product_mentions\<close> as it is after that sort.
\<close>

definition selected_products :: "'a mention_scheme list \<Rightarrow> 'a mention_scheme list" where
  "selected_products product_mentions = sort_desc score (fst (select_products product_mentions))"

definition mentions_after_sort :: "'a mention_scheme list \<Rightarrow> 'a mention_scheme list" where
  "mentions_after_sort product_mentions =
     (if snd (select_products product_mentions) then selected_products product_mentions
      else product_mentions)"

text \<open>
  \<open>format_recommendation\<close>. \<open>Inr None\<close> is the return of \<open>None\<close>; \<open>Inl IndexError\<close> is
  the exception \<open>selected_products[0]\<close> raises on an empty list.
\<close>

definition format_recommendation ::
  "capabilities \<Rightarrow> 'a mention_scheme list \<Rightarrow> string \<Rightarrow> error + recommendation option" where
  "format_recommendation cap product_mentions src =
     (if product_mentions = [] then Inr None
      else
        (case selected_products product_mentions of
           [] \<Rightarrow> Inl IndexError
         | top_product # _ \<Rightarrow>
             if product top_product = [] \<or> length (product top_product) < 3
             then Inr None
             else
               (let product_model = sanitize (product top_product)
                in Inr (Some
                     \<lparr>r_product = product_model,
                      r_description =
                        generate_ai_description cap product_model
                          (description top_product) (product_type top_product)
                          (request_attributes top_product),
                      r_sources =
                        collect_sources top_product (mentions_after_sort product_mentions) src,
                      r_buy_link = generate_amazon_link product_model,
                      r_image_url = generate_image_url product_model,
                      r_validity_score = validity_score top_product,
                      r_attributes = attributes top_product\<rparr>))))"

section \<open>Sample evidence\<close>

text \<open>
  Fixed answers of the external capabilities and fixed evidence, on which the theorems
  below are instantiated.
\<close>

definition sample_capabilities :: capabilities where
  "sample_capabilities =
     \<lparr>extract_product_models =
        (\<lambda>t. if t = ''I bought the Dyson V15 Detect and love it''
             then [''Dyson V15 Detect'', []]
             else if t = ''Today we compare the iPhone 15 Pro with last year''
             then [''iPhone 15 Pro'', ''iPhone-15-Pro'']
             else if t = ''Is the Z9 (?!) any good'' then [''Z9 (?!)'']
             else if t = ''I own !!!!!! best'' then [''!!!!!!'']
             else []),
      analyze_sentiment = (\<lambda>t. 1 / 2),
      extract_model_from_text =
        (\<lambda>t p. if t = ''I bought the Dyson V15 Detect and love it''
               then Some ''DYSON V15 Detect'' else None),
      generate_description = (\<lambda>t m a. t),
      generate_ai_description = (\<lambda>n d t a. d)\<rparr>"

definition sample_comment :: comment where
  "sample_comment = \<lparr>c_text = ''I bought the Dyson V15 Detect and love it'', c_upvotes = 200\<rparr>"

definition sample_thread :: thread where
  "sample_thread =
     \<lparr>t_title = ''Best cordless vacuum?'', t_url = ''https://www.reddit.com/r/vacuums/1'',
      t_comments = [sample_comment]\<rparr>"

definition sample_threads :: "thread list" where
  "sample_threads = [sample_thread]"

definition sample_comparison_thread :: thread where
  "sample_comparison_thread =
     \<lparr>t_title = ''Which phone?'', t_url = ''https://www.reddit.com/r/phones/2'',
      t_comments = [\<lparr>c_text = ''Today we compare the iPhone 15 Pro with last year'',
                     c_upvotes = 12\<rparr>]\<rparr>"

definition sample_short_thread :: thread where
  "sample_short_thread =
     \<lparr>t_title = ''Z9?'', t_url = ''https://www.reddit.com/r/vacuums/3'',
      t_comments = [\<lparr>c_text = ''Is the Z9 (?!) any good'', c_upvotes = 10\<rparr>]\<rparr>"

definition sample_punctuation_thread :: thread where
  "sample_punctuation_thread =
     \<lparr>t_title = ''My pick'', t_url = ''https://www.reddit.com/r/vacuums/6'',
      t_comments = [\<lparr>c_text = ''I own !!!!!! best'', c_upvotes = 1\<rparr>]\<rparr>"

definition sample_videos :: "video list" where
  "sample_videos =
     [\<lparr>v_transcript = ''Today we compare the iPhone 15 Pro with last year'',
       v_title = ''iPhone 15 Pro Review'', v_url = ''https://www.youtube.com/watch?v=1'',
       v_views = 50000, v_likes = 1200\<rparr>]"

section \<open>Predicates used in the statements\<close>

text \<open>What the builders guarantee of a mention: a score of at least 0 and a name.\<close>

definition well_built :: "'a mention_scheme \<Rightarrow> bool" where
  "well_built m = (0 \<le> validity_score m \<and> product m \<noteq> [])"

text \<open>\<open>clamp(x, lo, hi)\<close>, and the number of terms that occur in a name.\<close>

definition clamp :: "int \<Rightarrow> int \<Rightarrow> int \<Rightarrow> int" where
  "clamp x lo hi = (if x < lo then lo else if hi < x then hi else x)"

definition matching_terms :: "string list \<Rightarrow> string \<Rightarrow> nat" where
  "matching_terms terms name = length (filter (\<lambda>t. py_in t name) terms)"

text \<open>
  The rank score of a mention as one formula, for the forum stream and for the video
  stream. The query terms are the lowercased product type and the lowercased attributes
  that are not empty; the title is compared in lower case.
\<close>

definition forum_rank_score :: "string \<Rightarrow> string list \<Rightarrow> reddit_mention \<Rightarrow> rat" where
  "forum_rank_score ptype attrs m =
     sentiment m * 5 + min 5 (of_int (upvotes m) / 10)
     + 2 * of_int (clamp (validity_score m) 0 5)
     + of_nat (matching_terms (lower ptype # map lower (filter (\<lambda>a. a \<noteq> []) attrs))
                 (lower (product m)))
     + (if length (product m) > 8 then 1 else 0)"

definition video_rank_score :: "string \<Rightarrow> string list \<Rightarrow> youtube_mention \<Rightarrow> rat" where
  "video_rank_score ptype attrs m =
     sentiment m * 3 + min 3 (of_int (likes m) / 100) + min 4 (of_int (views m) / 10000)
     + 2 * of_int (clamp (validity_score m) 0 5)
     + (if py_in (lower (product m)) (lower (title m)) then 3 else 0)
     + of_nat (matching_terms (lower ptype # map lower (filter (\<lambda>a. a \<noteq> []) attrs))
                 (lower (product m)))"

text \<open>
  The two formulas in the words of the specification: one point for each query term, the
  product type or an attribute, lowercased, and three points if the lowercased name occurs
  inside the title.
\<close>

definition claimed_forum_score :: "string \<Rightarrow> string list \<Rightarrow> reddit_mention \<Rightarrow> rat" where
  "claimed_forum_score ptype attrs m =
     sentiment m * 5 + min 5 (of_int (upvotes m) / 10)
     + 2 * of_int (clamp (validity_score m) 0 5)
     + of_nat (matching_terms (map lower (ptype # attrs)) (lower (product m)))
     + (if length (product m) > 8 then 1 else 0)"

definition claimed_video_score :: "string \<Rightarrow> string list \<Rightarrow> youtube_mention \<Rightarrow> rat" where
  "claimed_video_score ptype attrs m =
     sentiment m * 3 + min 3 (of_int (likes m) / 100) + min 4 (of_int (views m) / 10000)
     + 2 * of_int (clamp (validity_score m) 0 5)
     + (if py_in (lower (product m)) (title m) then 3 else 0)
     + of_nat (matching_terms (map lower (ptype # attrs)) (lower (product m)))"


definition recommended :: "error + recommendation option \<Rightarrow> recommendation option" where
  "recommended x = (case x of Inl e \<Rightarrow> None | Inr r \<Rightarrow> r)"

text \<open>
  The character set the specification states for the product field, and the absence of
  two adjacent spaces.
\<close>

definition only_alnum_space_hyphen :: "string \<Rightarrow> bool" where
  "only_alnum_space_hyphen s = list_all (\<lambda>c. is_alnum c \<or> c = CHR '' '' \<or> c = CHR ''-'') s"

fun no_double_space :: "string \<Rightarrow> bool" where
  "no_double_space (a # b # cs) = (\<not> (a = CHR '' '' \<and> b = CHR '' '') \<and> no_double_space (b # cs))"
| "no_double_space cs = True"

text \<open>
  The classification of a lowercased name as a component in the words of the
  specification: the heuristic of the validity scorer (its patterns and its two length
  bounds, 20 for a graphics card and 15 for another component), overridden by a prebuilt
  brand.
\<close>

definition claimed_is_component :: "string \<Rightarrow> bool" where
  "claimed_is_component product_name =
     (if any_in prebuilt_brands product_name then False
      else (matches standalone_gpu_re product_name \<and> \<not> matches system_re product_name
              \<and> length product_name < 20)
         \<or> (any_in component_terms product_name \<and> length product_name < 15
              \<and> \<not> matches system_re product_name))"

text \<open>Sample mentions and the recommendation made from two of them.\<close>

definition sample_top :: reddit_mention where
  "sample_top =
     \<lparr>product = ''Dyson V15 Detect'', sentiment = 1 / 2,
      source = ''https://www.reddit.com/r/vacuums/1'',
      description = ''I bought the Dyson V15 Detect and love it'',
      validity_score = 8, validity_reason = ''Contains known brand name'',
      product_type = ''vacuum cleaner'', attributes = [''cordless''],
      score = 37 / 2, upvotes = 200\<rparr>"

definition sample_low :: reddit_mention where
  "sample_low =
     \<lparr>product = ''Shark X'', sentiment = 1 / 2,
      source = ''https://www.reddit.com/r/vacuums/2'',
      description = ''The Shark X is fine'',
      validity_score = 2, validity_reason = ''Missing model numbers, Contains known brand name'',
      product_type = ''vacuum cleaner'', attributes = [''cordless''],
      score = 34 / 5, upvotes = 3\<rparr>"

definition sample_underscore :: reddit_mention where
  "sample_underscore =
     \<lparr>product = ''Dyson_V15 Detect'', sentiment = 1 / 2,
      source = ''https://www.reddit.com/r/vacuums/4'',
      description = ''Get the Dyson_V15 Detect'',
      validity_score = 5, validity_reason = ''Contains both letters and numbers, Contains known brand name'',
      product_type = ''vacuum cleaner'', attributes = [''cordless''],
      score = 29 / 2, upvotes = 10\<rparr>"

definition sample_gpu :: reddit_mention where
  "sample_gpu =
     \<lparr>product = ''RTX 4090'', sentiment = 1 / 2,
      source = ''https://www.reddit.com/r/buildapc/1'',
      description = ''The RTX 4090 is the fastest card'',
      validity_score = 4, validity_reason = ''Valid NVIDIA GPU model number range'',
      product_type = ''gaming pc'', attributes = [],
      score = 25 / 2, upvotes = 40\<rparr>"

definition sample_prebuilt :: reddit_mention where
  "sample_prebuilt =
     \<lparr>product = ''Alienware Aurora R16'', sentiment = 1 / 2,
      source = ''https://www.reddit.com/r/buildapc/2'',
      description = ''I own the Alienware Aurora R16'',
      validity_score = 6, validity_reason = ''Contains known brand name'',
      product_type = ''gaming pc'', attributes = [],
      score = 12, upvotes = 5\<rparr>"

definition sample_recommendation :: recommendation where
  "sample_recommendation =
     \<lparr>r_product = ''Dyson V15 Detect'',
      r_description = ''I bought the Dyson V15 Detect and love it'',
      r_sources = [''https://www.reddit.com/r/vacuums/1'', ''https://www.reddit.com/r/vacuums/2''],
      r_buy_link = ''https://www.amazon.com/s?k=Dyson+V15+Detect&tag=allurecomreco-20'',
      r_image_url = ''https://placehold.co/400x400/f5f5f5/333?text=Dyson+V15+Detect'',
      r_validity_score = 8, r_attributes = [''cordless'']\<rparr>"

text \<open>
  The mention a duplicate-removal loop should keep for a key: the first mention of the
  list, among those with that key, whose score no mention with that key exceeds. The
  invariant of the loop says the dictionary holds exactly these mentions for the part of
  the list read so far.
\<close>

definition first_best ::
  "('a mention_scheme \<Rightarrow> string) \<Rightarrow> 'a mention_scheme list \<Rightarrow> string \<Rightarrow> 'a mention_scheme option" where
  "first_best key ms k =
     find (\<lambda>m. key m = k \<and> (\<forall>m' \<in> set ms. key m' = k \<longrightarrow> score m' \<le> score m)) ms"

definition dedup_invariant ::
  "('a mention_scheme \<Rightarrow> string) \<Rightarrow> 'a mention_scheme list
     \<Rightarrow> (string \<times> 'a mention_scheme) list \<Rightarrow> bool" where
  "dedup_invariant key xs d =
     (distinct (map fst d) \<and> fst ` set d = key ` set xs \<and>
      (\<forall>k r. map_of d k = Some r \<longrightarrow> first_best key xs k = Some r))"


section \<open>Auxiliary facts\<close>

lemma foldl_preserves:
  assumes "P a" and "\<And>b x. P b \<Longrightarrow> P (f b x)"
  shows "P (foldl f a xs)"
  using assms(1)
proof (induction xs arbitrary: a)
  case Nil
  then show ?case by simp
next
  case (Cons x xs)
  then show ?case by (simp add: assms(2))
qed

lemma find_from_empty: "find_from i [] s = Some i"
  by (cases s) simp_all

lemma starts_with_Nil2: "starts_with t [] = (t = [])"
  by (cases t) simp_all

lemma any_in_Nil2: "any_in ts [] = ([] \<in> set ts)"
  by (auto simp: any_in_def list_ex_iff starts_with_Nil2)

subsection \<open>The empty name scores below zero\<close>

lemma confidence_empty_name: "fst (confidence [] context_text ptype) \<le> - 4"
proof -
  have m1: "\<not> matches (Chr p) []" for p by (simp add: matches_def)
  have m2: "\<not> matches capitalized_re []" by (simp add: matches_def capitalized_re_def)
  have m3: "\<not> matches is_gpu_re []"
    by (simp add: matches_def is_gpu_re_def)
  have m4: "\<not> matches standalone_gpu_re []"
    by (simp add: matches_def standalone_gpu_re_def)
  have b: "\<not> any_in brands []" "\<not> any_in system_terms []" "\<not> any_in prebuilt_brands []"
    "\<not> any_in component_terms []" "\<not> any_in ownership_terms []"
    by (simp_all add: any_in_Nil2 brands_def system_terms_def prebuilt_brands_def
        component_terms_def ownership_terms_def)
  have base: "check_brand [] [] (check_letters_numbers [] (check_length [] (0, []))) =
      (- 5, [''Too short for a complete product name'', ''Missing model numbers'',
             ''No identifiable brand''])"
    by (simp add: check_brand_def check_letters_numbers_def check_length_def adjust_def m1 m2 b)
  have cat: "check_category [] [] t v = v" for t v
    by (simp add: check_category_def check_gpu_def check_computer_def check_component_def
        check_standalone_gpu_def check_prebuilt_def check_system_terms_def m3 m4 b)
  have own: "check_ownership [] c v = v" for c v
    by (simp add: check_ownership_def py_find_def find_from_empty b)
  have recm: "fst (check_recommend c v) \<le> fst v + 1" for c v
    by (simp add: check_recommend_def adjust_def)
  have ctx: "fst (check_context [] c v) \<le> fst v + 1" for c v
    using recm [of "lower c" v] by (simp add: check_context_def Let_def own)
  show ?thesis
    using ctx [of context_text "(- 5, [''Too short for a complete product name'',
      ''Missing model numbers'', ''No identifiable brand''])"]
    by (simp add: confidence_def Let_def lower_def base cat)
qed

lemma is_valid_product_empty_name: "fst (snd (is_valid_product [] context_text ptype)) < 0"
  using confidence_empty_name [of context_text ptype] by (simp add: is_valid_product_def Let_def)

subsection \<open>What holds of every mention the builders append\<close>

lemma add_model_well_built:
  assumes "list_all well_built ms"
  shows "list_all well_built (add_model cap ptype attrs url ctx ups sent ms model)"
proof (cases "model = []")
  case True
  then show ?thesis
    using assms is_valid_product_empty_name [of ctx ptype]
    by (auto simp: add_model_def split: prod.splits)
next
  case False
  then show ?thesis
    using assms by (auto simp: add_model_def well_built_def split: prod.splits)
qed

lemma extract_from_comment_well_built:
  "list_all well_built ms \<Longrightarrow> list_all well_built (extract_from_comment cap ptype attrs url ms c)"
  by (simp add: extract_from_comment_def Let_def foldl_preserves add_model_well_built)

lemma pattern_from_comment_well_built:
  "list_all well_built ms \<Longrightarrow> list_all well_built (pattern_from_comment cap ptype attrs url ms c)"
  by (auto simp: pattern_from_comment_def Let_def well_built_def split: option.splits prod.splits)

lemma process_thread_well_built:
  "list_all well_built ms \<Longrightarrow> list_all well_built (process_thread cap ptype attrs ms t)"
  by (simp add: process_thread_def model_pass_def pattern_pass_def Let_def foldl_preserves
      extract_from_comment_well_built pattern_from_comment_well_built)

lemma collect_reddit_well_built: "list_all well_built (collect_reddit cap threads ptype attrs)"
  by (simp add: collect_reddit_def foldl_preserves process_thread_well_built)

lemma add_video_model_well_built:
  assumes "list_all well_built ms"
  shows "list_all well_built (add_video_model cap ptype attrs v sent ms model)"
proof (cases "model = []")
  case True
  then show ?thesis
    using assms is_valid_product_empty_name [of "v_transcript v" ptype]
    by (auto simp: add_video_model_def split: prod.splits)
next
  case False
  then show ?thesis
    using assms by (auto simp: add_video_model_def well_built_def split: prod.splits)
qed

lemma process_video_well_built:
  "list_all well_built ms \<Longrightarrow> list_all well_built (process_video cap ptype attrs ms v)"
  by (simp add: process_video_def Let_def foldl_preserves add_video_model_well_built)

lemma collect_youtube_well_built: "list_all well_built (collect_youtube cap videos ptype attrs)"
  by (simp add: collect_youtube_def foldl_preserves process_video_well_built)

subsection \<open>Sorting and duplicate removal add no mention\<close>

lemma set_sort_desc: "set (sort_desc key xs) = set xs"
  by (simp add: sort_desc_def)

lemma in_dict_set: "x \<in> set (dict_set d k v) \<Longrightarrow> x = (k, v) \<or> x \<in> set d"
  by (induction d) (auto split: if_splits)

lemma set_dict_set: "snd ` set (dict_set d k v) \<subseteq> insert v (snd ` set d)"
  using in_dict_set [of _ d k v] by fastforce

lemma set_keep_best:
  "set (dict_values (keep_best key d m)) \<subseteq> insert m (set (dict_values d))"
  using set_dict_set [of d "key m" m]
  by (auto simp: keep_best_def dict_values_def Let_def split: option.splits)

lemma set_foldl_keep_best:
  "set (dict_values (foldl (keep_best key) d ms)) \<subseteq> set (dict_values d) \<union> set ms"
proof (induction ms arbitrary: d)
  case Nil
  then show ?case by simp
next
  case (Cons m ms)
  show ?case using Cons.IH [of "keep_best key d m"] set_keep_best [of key d m] by auto
qed

lemma set_remove_duplicates: "set (remove_duplicates key ms) \<subseteq> set ms"
  using set_foldl_keep_best [of key "[]" ms] by (simp add: remove_duplicates_def dict_values_def)

lemma well_built_score_reddit: "well_built (score_reddit terms m) = well_built m"
  by (simp add: score_reddit_def well_built_def Let_def)

lemma well_built_score_youtube: "well_built (score_youtube terms m) = well_built m"
  by (simp add: score_youtube_def well_built_def Let_def)

lemma process_reddit_data_scored:
  assumes "m \<in> set (process_reddit_data cap threads ptype attrs)"
  shows "m \<in> score_reddit (product_type_terms ptype attrs) ` set (collect_reddit cap threads ptype attrs)"
  using assms set_remove_duplicates
  by (fastforce simp: process_reddit_data_def Let_def set_sort_desc)

lemma process_youtube_data_scored:
  assumes "m \<in> set (process_youtube_data cap videos ptype attrs)"
  shows "m \<in> score_youtube (product_type_terms ptype attrs) ` set (collect_youtube cap videos ptype attrs)"
  using assms set_remove_duplicates
  by (fastforce simp: process_youtube_data_def Let_def set_sort_desc)

lemma process_reddit_data_well_built:
  assumes "m \<in> set (process_reddit_data cap threads ptype attrs)"
  shows "well_built m"
  using process_reddit_data_scored [OF assms] collect_reddit_well_built [of cap threads ptype attrs]
  by (auto simp: list_all_iff well_built_score_reddit)

lemma process_youtube_data_well_built:
  assumes "m \<in> set (process_youtube_data cap videos ptype attrs)"
  shows "well_built m"
  using process_youtube_data_scored [OF assms] collect_youtube_well_built [of cap videos ptype attrs]
  by (auto simp: list_all_iff well_built_score_youtube)

subsection \<open>The pipelines on the sample evidence\<close>

lemma sample_reddit_result:
  "process_reddit_data sample_capabilities sample_threads ''vacuum cleaner'' [''cordless''] =
     [\<lparr>product = ''Dyson V15 Detect'', sentiment = 1 / 2,
       source = ''https://www.reddit.com/r/vacuums/1'',
       description = ''I bought the Dyson V15 Detect and love it'',
       validity_score = 8,
       validity_reason = ''Contains both letters and numbers, Contains known brand name, Product mentioned in ownership context'',
       product_type = ''vacuum cleaner'', attributes = [''cordless''],
       score = 37 / 2, upvotes = 200\<rparr>]"
  by code_simp

lemma sample_youtube_result:
  "map (\<lambda>m. (product m, validity_score m, score m))
     (process_youtube_data sample_capabilities sample_videos ''smartphone'' [''camera'']) =
     [(''iPhone 15 Pro'', 4, 39 / 2), (''iPhone-15-Pro'', 4, 33 / 2)]"
  by code_simp

section \<open>The validity floor\<close>

text \<open>
  Claim C1. Every mention the forum pipeline and the video pipeline build (the collected
  lists), and so every mention in the lists \<open>process_reddit_data\<close> and
  \<open>process_youtube_data\<close> return, has a validity score of at least 0: a candidate that
  \<open>is_valid_product\<close> scores below 0 is skipped when mentions are built.
\<close>

theorem validity_floor:
  "(\<forall>m \<in> set (collect_reddit cap threads ptype attrs). 0 \<le> validity_score m) \<and>
   (\<forall>m \<in> set (process_reddit_data cap threads ptype attrs). 0 \<le> validity_score m) \<and>
   (\<forall>m \<in> set (collect_youtube cap videos ptype attrs). 0 \<le> validity_score m) \<and>
   (\<forall>m \<in> set (process_youtube_data cap videos ptype attrs). 0 \<le> validity_score m)"
  using collect_reddit_well_built [of cap threads ptype attrs]
    collect_youtube_well_built [of cap videos ptype attrs]
    process_reddit_data_well_built [of _ cap threads ptype attrs]
    process_youtube_data_well_built [of _ cap videos ptype attrs]
  by (auto simp: list_all_iff well_built_def)

theorem validity_floor_witness:
  "process_reddit_data sample_capabilities sample_threads ''vacuum cleaner'' [''cordless''] \<noteq> [] \<and>
   0 \<le> validity_score (hd (process_reddit_data sample_capabilities sample_threads
       ''vacuum cleaner'' [''cordless''])) \<and>
   process_youtube_data sample_capabilities sample_videos ''smartphone'' [''camera''] \<noteq> [] \<and>
   0 \<le> validity_score (hd (process_youtube_data sample_capabilities sample_videos
       ''smartphone'' [''camera'']))"
proof -
  have "process_reddit_data sample_capabilities sample_threads ''vacuum cleaner'' [''cordless''] \<noteq> []"
    by (simp add: sample_reddit_result)
  moreover have
    "process_youtube_data sample_capabilities sample_videos ''smartphone'' [''camera''] \<noteq> []"
    using sample_youtube_result by auto
  ultimately show ?thesis
    using validity_floor [of sample_capabilities sample_threads "''vacuum cleaner''"
        "[''cordless'']" sample_videos]
      validity_floor [of sample_capabilities sample_threads "''smartphone''" "[''camera'']"
        sample_videos]
    by simp
qed

section \<open>No mention without a name\<close>

text \<open>
  Claim C9. \<open>is_valid_product\<close> gives the empty name a negative score, whatever the
  context and the category, so the builders skip it; and every mention the forum and the
  video pipeline build (the collected lists) or return has a name that is not empty.
\<close>

theorem mention_names_nonempty:
  "fst (snd (is_valid_product [] context_text category)) < 0 \<and>
   (\<forall>m \<in> set (collect_reddit cap threads ptype attrs). product m \<noteq> []) \<and>
   (\<forall>m \<in> set (process_reddit_data cap threads ptype attrs). product m \<noteq> []) \<and>
   (\<forall>m \<in> set (collect_youtube cap videos ptype attrs). product m \<noteq> []) \<and>
   (\<forall>m \<in> set (process_youtube_data cap videos ptype attrs). product m \<noteq> [])"
  using is_valid_product_empty_name [of context_text category]
    collect_reddit_well_built [of cap threads ptype attrs]
    collect_youtube_well_built [of cap videos ptype attrs]
    process_reddit_data_well_built [of _ cap threads ptype attrs]
    process_youtube_data_well_built [of _ cap videos ptype attrs]
  by (auto simp: list_all_iff well_built_def)

theorem mention_names_nonempty_witness:
  "fst (snd (is_valid_product [] ''I am using it, the best'' ''desktop computer'')) < 0 \<and>
   collect_reddit sample_capabilities sample_threads ''vacuum cleaner'' [''cordless''] \<noteq> [] \<and>
   product (hd (collect_reddit sample_capabilities sample_threads ''vacuum cleaner''
     [''cordless''])) \<noteq> [] \<and>
   process_reddit_data sample_capabilities sample_threads ''vacuum cleaner'' [''cordless''] \<noteq> [] \<and>
   product (hd (process_reddit_data sample_capabilities sample_threads ''vacuum cleaner''
     [''cordless''])) \<noteq> [] \<and>
   collect_youtube sample_capabilities sample_videos ''smartphone'' [''camera''] \<noteq> [] \<and>
   product (hd (collect_youtube sample_capabilities sample_videos ''smartphone''
     [''camera''])) \<noteq> [] \<and>
   process_youtube_data sample_capabilities sample_videos ''smartphone'' [''camera''] \<noteq> [] \<and>
   product (hd (process_youtube_data sample_capabilities sample_videos ''smartphone''
     [''camera''])) \<noteq> []"
proof -
  have r: "process_reddit_data sample_capabilities sample_threads ''vacuum cleaner''
      [''cordless''] \<noteq> []"
    by (simp add: sample_reddit_result)
  have y: "process_youtube_data sample_capabilities sample_videos ''smartphone'' [''camera''] \<noteq> []"
    using sample_youtube_result by auto
  have cr: "collect_reddit sample_capabilities sample_threads ''vacuum cleaner'' [''cordless''] \<noteq> []"
    using r by (auto simp: process_reddit_data_def sort_desc_def remove_duplicates_def
        dict_values_def)
  have cy: "collect_youtube sample_capabilities sample_videos ''smartphone'' [''camera''] \<noteq> []"
    using y by (auto simp: process_youtube_data_def sort_desc_def remove_duplicates_def
        dict_values_def)
  show ?thesis
    using r y cr cy
      mention_names_nonempty [of "''I am using it, the best''" "''desktop computer''"
        sample_capabilities sample_threads "''vacuum cleaner''" "[''cordless'']" sample_videos]
      mention_names_nonempty [of "''I am using it, the best''" "''desktop computer''"
        sample_capabilities sample_threads "''smartphone''" "[''camera'']" sample_videos]
    by simp
qed

section \<open>When the pattern pass runs\<close>

lemma lower_char_idem: "lower_char (lower_char c) = lower_char c"
  by (auto simp: lower_char_def in_range_def code_point_def)

lemma lower_idem: "lower (lower s) = lower s"
  by (simp add: lower_def lower_char_idem)

lemma add_model_indep:
  "add_model (cap\<lparr>extract_model_from_text := f\<rparr>) = add_model cap"
  by (intro ext) (simp add: add_model_def split: prod.splits)

lemma extract_from_comment_indep:
  "extract_from_comment (cap\<lparr>extract_model_from_text := f\<rparr>) = extract_from_comment cap"
  by (intro ext) (simp add: extract_from_comment_def add_model_indep Let_def)

lemma model_pass_indep:
  "model_pass (cap\<lparr>extract_model_from_text := f\<rparr>) = model_pass cap"
  by (intro ext) (simp add: model_pass_def extract_from_comment_indep)

text \<open>
  Claim C10. In \<open>process_reddit_data\<close> the second loop over a thread's comments, the one
  that calls \<open>extract_model_from_text\<close>, runs exactly when fewer than two mentions have
  been collected so far, over all threads up to and including the first loop of this one:
  with two or more, the thread's result is the result of the first loop and does not
  depend on \<open>extract_model_from_text\<close>. Inside the second loop a name that
  \<open>extract_model_from_text\<close> returns is not appended when its lowercase form equals the
  lowercase form of the name of a mention already collected (and so, too, when it equals
  that name itself).
\<close>

theorem pattern_pass_gate:
  "(2 \<le> length (model_pass cap ptype attrs product_mentions t) \<longrightarrow>
      process_thread cap ptype attrs product_mentions t =
        model_pass cap ptype attrs product_mentions t \<and>
      process_thread (cap\<lparr>extract_model_from_text := f\<rparr>) ptype attrs product_mentions t =
        process_thread cap ptype attrs product_mentions t) \<and>
   (length (model_pass cap ptype attrs product_mentions t) < 2 \<longrightarrow>
      process_thread cap ptype attrs product_mentions t =
        pattern_pass cap ptype attrs (model_pass cap ptype attrs product_mentions t) t) \<and>
   (extract_model_from_text cap (c_text c) ptype = Some model_name \<and>
    (\<exists>m \<in> set ms. lower (product m) = lower model_name \<or> product m = lower model_name) \<longrightarrow>
      pattern_from_comment cap ptype attrs url ms c = ms)"
proof (intro conjI impI)
  assume "2 \<le> length (model_pass cap ptype attrs product_mentions t)"
  then show "process_thread cap ptype attrs product_mentions t =
      model_pass cap ptype attrs product_mentions t"
    by (simp add: process_thread_def Let_def)
next
  assume "2 \<le> length (model_pass cap ptype attrs product_mentions t)"
  then show "process_thread (cap\<lparr>extract_model_from_text := f\<rparr>) ptype attrs product_mentions t =
      process_thread cap ptype attrs product_mentions t"
    by (simp add: process_thread_def Let_def model_pass_indep)
next
  assume "length (model_pass cap ptype attrs product_mentions t) < 2"
  then show "process_thread cap ptype attrs product_mentions t =
      pattern_pass cap ptype attrs (model_pass cap ptype attrs product_mentions t) t"
    by (simp add: process_thread_def Let_def)
next
  assume a: "extract_model_from_text cap (c_text c) ptype = Some model_name \<and>
    (\<exists>m \<in> set ms. lower (product m) = lower model_name \<or> product m = lower model_name)"
  then obtain m where "m \<in> set ms" "lower (product m) = lower model_name"
    using lower_idem by metis
  then have "list_ex (\<lambda>m. lower (product m) = lower model_name) ms"
    by (auto simp: list_ex_iff)
  with a show "pattern_from_comment cap ptype attrs url ms c = ms"
    by (simp add: pattern_from_comment_def Let_def split: prod.splits)
qed

lemma sample_model_pass_two:
  "length (model_pass sample_capabilities ''phone'' [] [] sample_comparison_thread) = 2"
  by code_simp

lemma sample_model_pass_one:
  "map product (model_pass sample_capabilities ''vacuum cleaner'' [''cordless''] [] sample_thread) =
     [''Dyson V15 Detect'']"
  by code_simp

lemma sample_pattern_name:
  "extract_model_from_text sample_capabilities (c_text sample_comment) ''vacuum cleaner'' =
     Some ''DYSON V15 Detect'' \<and> lower ''Dyson V15 Detect'' = lower ''DYSON V15 Detect''"
  by code_simp

theorem pattern_pass_gate_witness:
  "2 \<le> length (model_pass sample_capabilities ''phone'' [] [] sample_comparison_thread) \<and>
   process_thread sample_capabilities ''phone'' [] [] sample_comparison_thread =
     model_pass sample_capabilities ''phone'' [] [] sample_comparison_thread \<and>
   process_thread (sample_capabilities\<lparr>extract_model_from_text := (\<lambda>t p. Some ''Pixel 8'')\<rparr>)
       ''phone'' [] [] sample_comparison_thread =
     process_thread sample_capabilities ''phone'' [] [] sample_comparison_thread \<and>
   length (model_pass sample_capabilities ''vacuum cleaner'' [''cordless''] [] sample_thread) < 2 \<and>
   process_thread sample_capabilities ''vacuum cleaner'' [''cordless''] [] sample_thread =
     pattern_pass sample_capabilities ''vacuum cleaner'' [''cordless'']
       (model_pass sample_capabilities ''vacuum cleaner'' [''cordless''] [] sample_thread)
       sample_thread \<and>
   extract_model_from_text sample_capabilities (c_text sample_comment) ''vacuum cleaner'' =
     Some ''DYSON V15 Detect'' \<and>
   pattern_from_comment sample_capabilities ''vacuum cleaner'' [''cordless''] (t_url sample_thread)
       (model_pass sample_capabilities ''vacuum cleaner'' [''cordless''] [] sample_thread)
       sample_comment =
     model_pass sample_capabilities ''vacuum cleaner'' [''cordless''] [] sample_thread"
proof -
  have two: "2 \<le> length (model_pass sample_capabilities ''phone'' [] [] sample_comparison_thread)"
    by (simp add: sample_model_pass_two)
  have one: "length (model_pass sample_capabilities ''vacuum cleaner'' [''cordless''] []
      sample_thread) < 2"
    using arg_cong [OF sample_model_pass_one, of length] by simp
  have "\<exists>p \<in> set (map product (model_pass sample_capabilities ''vacuum cleaner'' [''cordless'']
      [] sample_thread)). lower p = lower ''DYSON V15 Detect''"
    using sample_pattern_name by (simp add: sample_model_pass_one)
  then have dup: "\<exists>m \<in> set (model_pass sample_capabilities ''vacuum cleaner'' [''cordless''] []
      sample_thread). lower (product m) = lower ''DYSON V15 Detect'' \<or>
        product m = lower ''DYSON V15 Detect''"
    by auto
  show ?thesis
    using two one dup sample_pattern_name
      pattern_pass_gate [of sample_capabilities "''phone''" "[]" "[]" sample_comparison_thread
        "\<lambda>t p. Some ''Pixel 8''" sample_comment "''DYSON V15 Detect''"
        "model_pass sample_capabilities ''vacuum cleaner'' [''cordless''] [] sample_thread"
        "t_url sample_thread"]
      pattern_pass_gate [of sample_capabilities "''vacuum cleaner''" "[''cordless'']" "[]"
        sample_thread "\<lambda>t p. Some ''Pixel 8''" sample_comment "''DYSON V15 Detect''"
        "model_pass sample_capabilities ''vacuum cleaner'' [''cordless''] [] sample_thread"
        "t_url sample_thread"]
    by simp
qed

section \<open>The rank score\<close>

lemma term_bonus_count:
  "term_bonus terms name sc = sc + of_nat (matching_terms terms name)"
  unfolding term_bonus_def matching_terms_def
  by (induction terms arbitrary: sc) simp_all

lemma validity_impact_clamp: "validity_impact v = clamp v 0 5"
  by (simp add: validity_impact_def clamp_def)

lemma score_reddit_formula:
  "score (score_reddit (product_type_terms ptype attrs) m) =
     forum_rank_score ptype attrs (score_reddit (product_type_terms ptype attrs) m)"
  by (simp add: score_reddit_def forum_rank_score_def Let_def term_bonus_count
      validity_impact_clamp product_type_terms_def)

lemma score_youtube_formula:
  "score (score_youtube (product_type_terms ptype attrs) m) =
     video_rank_score ptype attrs (score_youtube (product_type_terms ptype attrs) m)"
  by (simp add: score_youtube_def video_rank_score_def Let_def term_bonus_count
      validity_impact_clamp product_type_terms_def)

lemma sample_reddit_empty_attribute:
  "map (\<lambda>m. (score m, claimed_forum_score ''vacuum cleaner'' [[]] m))
     (process_reddit_data sample_capabilities sample_threads ''vacuum cleaner'' [[]]) =
   [(37 / 2, 39 / 2)]"
  by code_simp

lemma sample_youtube_title:
  "map (\<lambda>m. (score m, claimed_video_score ''smartphone'' [''camera''] m))
     (process_youtube_data sample_capabilities sample_videos ''smartphone'' [''camera'']) =
   [(39 / 2, 33 / 2), (33 / 2, 33 / 2)]"
  by code_simp

text \<open>
  Claim C2, as stated, fails in two places. With the request attributes \<open>[""]\<close> the forum
  score of the sample mention is 37/2, while the stated formula, which counts every
  attribute that is a substring of the name, gives 39/2: the code leaves empty attributes
  out of the query terms. With the title \<open>iPhone 15 Pro Review\<close> the video score of the
  mention \<open>iPhone 15 Pro\<close> is 39/2, while the stated formula, which looks for the
  lowercased name inside the title as it is, gives 33/2: the code lowercases the title too.
\<close>

theorem rank_score_counterexample:
  "map score (process_reddit_data sample_capabilities sample_threads ''vacuum cleaner'' [[]]) \<noteq>
     map (claimed_forum_score ''vacuum cleaner'' [[]])
       (process_reddit_data sample_capabilities sample_threads ''vacuum cleaner'' [[]]) \<and>
   map score (process_youtube_data sample_capabilities sample_videos ''smartphone'' [''camera'']) \<noteq>
     map (claimed_video_score ''smartphone'' [''camera''])
       (process_youtube_data sample_capabilities sample_videos ''smartphone'' [''camera''])"
proof -
  have "map fst (map (\<lambda>m. (score m, claimed_forum_score ''vacuum cleaner'' [[]] m))
      (process_reddit_data sample_capabilities sample_threads ''vacuum cleaner'' [[]])) \<noteq>
    map snd (map (\<lambda>m. (score m, claimed_forum_score ''vacuum cleaner'' [[]] m))
      (process_reddit_data sample_capabilities sample_threads ''vacuum cleaner'' [[]]))"
    unfolding sample_reddit_empty_attribute by simp
  moreover have "map fst (map (\<lambda>m. (score m, claimed_video_score ''smartphone'' [''camera''] m))
      (process_youtube_data sample_capabilities sample_videos ''smartphone'' [''camera''])) \<noteq>
    map snd (map (\<lambda>m. (score m, claimed_video_score ''smartphone'' [''camera''] m))
      (process_youtube_data sample_capabilities sample_videos ''smartphone'' [''camera'']))"
    unfolding sample_youtube_title by simp
  ultimately show ?thesis by (simp add: comp_def)
qed

text \<open>
  Claim C2, amended. For every mention \<open>process_reddit_data\<close> returns, the score is
  sentiment * 5 + min(5, upvotes / 10) + 2 * clamp(validity score, 0, 5), plus 1 for each
  query term that is a substring of the lowercased name, plus 1 if the name is longer than
  8 characters; for every mention \<open>process_youtube_data\<close> returns, the score is
  sentiment * 3 + min(3, likes / 100) + min(4, views / 10000)
  + 2 * clamp(validity score, 0, 5), plus 3 if the lowercased name occurs inside the
  lowercased title, plus 1 for each query term that is a substring of the lowercased name.
  The query terms are the lowercased product type and the lowercased attributes that are
  not the empty string. Scores are exact rationals here.
\<close>

theorem rank_score_formula:
  "(\<forall>m \<in> set (process_reddit_data cap threads ptype attrs).
      score m = forum_rank_score ptype attrs m) \<and>
   (\<forall>m \<in> set (process_youtube_data cap videos ptype attrs).
      score m = video_rank_score ptype attrs m)"
proof (intro conjI ballI)
  fix m assume "m \<in> set (process_reddit_data cap threads ptype attrs)"
  then obtain m0 where "m = score_reddit (product_type_terms ptype attrs) m0"
    using process_reddit_data_scored by blast
  then show "score m = forum_rank_score ptype attrs m"
    by (simp only: score_reddit_formula)
next
  fix m assume "m \<in> set (process_youtube_data cap videos ptype attrs)"
  then obtain m0 where "m = score_youtube (product_type_terms ptype attrs) m0"
    using process_youtube_data_scored by blast
  then show "score m = video_rank_score ptype attrs m"
    by (simp only: score_youtube_formula)
qed

theorem rank_score_formula_witness:
  "process_reddit_data sample_capabilities sample_threads ''vacuum cleaner'' [''cordless''] \<noteq> [] \<and>
   score (hd (process_reddit_data sample_capabilities sample_threads ''vacuum cleaner''
       [''cordless''])) =
     forum_rank_score ''vacuum cleaner'' [''cordless'']
       (hd (process_reddit_data sample_capabilities sample_threads ''vacuum cleaner''
          [''cordless''])) \<and>
   process_youtube_data sample_capabilities sample_videos ''smartphone'' [''camera''] \<noteq> [] \<and>
   score (hd (process_youtube_data sample_capabilities sample_videos ''smartphone''
       [''camera''])) =
     video_rank_score ''smartphone'' [''camera'']
       (hd (process_youtube_data sample_capabilities sample_videos ''smartphone'' [''camera'']))"
proof -
  have r: "process_reddit_data sample_capabilities sample_threads ''vacuum cleaner''
      [''cordless''] \<noteq> []"
    by (simp add: sample_reddit_result)
  have y: "process_youtube_data sample_capabilities sample_videos ''smartphone'' [''camera''] \<noteq> []"
    using sample_youtube_result by auto
  show ?thesis
    using r y
      rank_score_formula [of sample_capabilities sample_threads "''vacuum cleaner''"
        "[''cordless'']" sample_videos]
      rank_score_formula [of sample_capabilities sample_threads "''smartphone''" "[''camera'']"
        sample_videos]
    by simp
qed

section \<open>The category filter\<close>

lemma select_products_nonempty: "ms \<noteq> [] \<Longrightarrow> fst (select_products ms) \<noteq> []"
  by (simp add: select_products_def)

lemma sort_desc_Nil_iff: "sort_desc key xs = [] \<longleftrightarrow> xs = []"
  by (metis set_sort_desc set_empty)

lemma selected_products_nonempty: "ms \<noteq> [] \<Longrightarrow> selected_products ms \<noteq> []"
  by (simp add: selected_products_def sort_desc_Nil_iff select_products_nonempty)

lemma selected_products_Nil: "selected_products [] = []"
  by (simp add: selected_products_def select_products_def is_system_search_def
      valid_products_def sort_desc_def)

lemma set_selected_products: "set (selected_products ms) = set (fst (select_products ms))"
  by (simp add: selected_products_def set_sort_desc)

lemma select_products_subset: "set (fst (select_products ms)) \<subseteq> set ms"
  by (auto simp: select_products_def systems_def valid_products_def)

lemma system_terms_nonempty: "any_in system_categories s \<Longrightarrow> s \<noteq> []"
  by (auto simp: any_in_Nil2 system_categories_def)

lemma lower_Nil_iff: "lower s = [] \<longleftrightarrow> s = []"
  by (simp add: lower_def)

lemma is_system_search_request:
  assumes "ms \<noteq> []" "\<forall>m \<in> set ms. product_type m = ptype" "any_in system_categories (lower ptype)"
  shows "is_system_search ms"
  using assms system_terms_nonempty [of "lower ptype"]
  by (cases ms) (auto simp: is_system_search_def lower_Nil_iff)

lemma request_type_carried:
  "(\<forall>m \<in> set (process_reddit_data cap threads ptype attrs). product_type m = ptype) \<and>
   (\<forall>m \<in> set (process_youtube_data cap videos ptype attrs). product_type m = ptype)"
proof -
  have a: "list_all (\<lambda>m. product_type m = ptype) (add_model cap ptype attrs url ctx ups sent ms model)"
    if "list_all (\<lambda>m. product_type m = ptype) ms" for url ctx ups sent ms model
    using that by (auto simp: add_model_def split: prod.splits)
  have b: "list_all (\<lambda>m. product_type m = ptype) (extract_from_comment cap ptype attrs url ms c)"
    if "list_all (\<lambda>m. product_type m = ptype) ms" for url ms c
    using that by (simp add: extract_from_comment_def Let_def foldl_preserves a)
  have c: "list_all (\<lambda>m. product_type m = ptype) (pattern_from_comment cap ptype attrs url ms c)"
    if "list_all (\<lambda>m. product_type m = ptype) ms" for url ms c
    using that by (auto simp: pattern_from_comment_def Let_def split: option.splits prod.splits)
  have d: "list_all (\<lambda>m. product_type m = ptype) (process_thread cap ptype attrs ms t)"
    if "list_all (\<lambda>m. product_type m = ptype) ms" for ms t
    using that by (simp add: process_thread_def model_pass_def pattern_pass_def Let_def
        foldl_preserves b c)
  have r: "list_all (\<lambda>m. product_type m = ptype) (collect_reddit cap threads ptype attrs)"
    by (simp add: collect_reddit_def foldl_preserves d)
  have e: "list_all (\<lambda>m. product_type m = ptype) (add_video_model cap ptype attrs v sent ms model)"
    if "list_all (\<lambda>m. product_type m = ptype) ms" for v sent ms model
    using that by (auto simp: add_video_model_def split: prod.splits)
  have f: "list_all (\<lambda>m. product_type m = ptype) (process_video cap ptype attrs ms v)"
    if "list_all (\<lambda>m. product_type m = ptype) ms" for ms v
    using that by (simp add: process_video_def Let_def foldl_preserves e)
  have y: "list_all (\<lambda>m. product_type m = ptype) (collect_youtube cap videos ptype attrs)"
    by (simp add: collect_youtube_def foldl_preserves f)
  have "product_type m = ptype" if "m \<in> set (process_reddit_data cap threads ptype attrs)" for m
    using process_reddit_data_scored [OF that] r
    by (auto simp: list_all_iff score_reddit_def Let_def)
  moreover have "product_type m = ptype"
    if "m \<in> set (process_youtube_data cap videos ptype attrs)" for m
    using process_youtube_data_scored [OF that] y
    by (auto simp: list_all_iff score_youtube_def Let_def)
  ultimately show ?thesis by blast
qed

lemma select_products_systems:
  assumes "is_system_search ms" "systems ms \<noteq> []"
  shows "set (fst (select_products ms)) \<subseteq> set (systems ms)"
  using assms by (auto simp: select_products_def valid_products_def)

lemma is_component_rtx: "is_component (lower ''RTX 4090'')"
  by code_simp

lemma is_component_alienware: "\<not> is_component (lower ''Alienware Aurora R16'')"
  by code_simp

lemma gaming_pc_is_system: "any_in system_categories (lower ''gaming pc'')"
  by code_simp

lemma sanitize_alienware: "sanitize ''Alienware Aurora R16'' = ''Alienware Aurora R16''"
  by code_simp

lemma sort_desc_single: "sort_desc key [x] = [x]"
  by (simp add: sort_desc_def)

lemma scenario_c_selected:
  fixes a b :: "'a mention_scheme"
  assumes "product a = ''RTX 4090''" "product_type a = ''gaming pc''"
    "product b = ''Alienware Aurora R16''" "validity_score b = 6" "product_type b = ''gaming pc''"
  shows "selected_products [a, b] = [b]" "selected_products [b, a] = [b]"
proof -
  have s1: "is_system_search [a, b]" "is_system_search [b, a]"
    using assms gaming_pc_is_system by (simp_all add: is_system_search_def)
  have s2: "systems [a, b] = [b]" "systems [b, a] = [b]"
    using assms is_component_rtx is_component_alienware by (simp_all add: systems_def)
  have s3: "valid_products [b] = [b]"
    using assms by (simp add: valid_products_def)
  show "selected_products [a, b] = [b]" "selected_products [b, a] = [b]"
    by (simp_all add: selected_products_def select_products_def s1 s2 s3 sort_desc_single)
qed

lemma sample_systems: "systems [sample_gpu, sample_prebuilt] = [sample_prebuilt]"
  by code_simp

text \<open>
  Claim C4. When every mention carries the request's product type (as the mentions both
  pipelines return do), that type contains
  one of \<open>computer\<close>, \<open>pc\<close>, \<open>desktop\<close>, \<open>gaming pc\<close>, \<open>laptop\<close>, and at least one
  mention is classified as a system, then every selected mention, and so the winner, is
  one of the systems and none is a component. In particular, for a \<open>gaming pc\<close> request
  with the mentions \<open>RTX 4090\<close> (validity 4) and \<open>Alienware Aurora R16\<close> (validity 6), in
  either order and whatever their other fields, the recommendation's product is
  \<open>Alienware Aurora R16\<close>.
\<close>

theorem system_preference:
  fixes a b :: "'a mention_scheme"
  shows
  "((\<forall>m \<in> set ms. product_type m = ptype) \<and> any_in system_categories (lower ptype)
      \<and> systems ms \<noteq> [] \<longrightarrow>
      set (selected_products ms) \<subseteq> set (systems ms) \<and>
      set (selected_products ms) \<inter> set (components ms) = {} \<and>
      (\<exists>top_product rest. selected_products ms = top_product # rest \<and>
         \<not> is_component (lower (product top_product)))) \<and>
   (product a = ''RTX 4090'' \<and> validity_score a = 4 \<and> product_type a = ''gaming pc'' \<and>
    product b = ''Alienware Aurora R16'' \<and> validity_score b = 6 \<and> product_type b = ''gaming pc''
      \<longrightarrow>
      (\<exists>r. format_recommendation cap [a, b] src = Inr (Some r) \<and>
            r_product r = ''Alienware Aurora R16'') \<and>
      (\<exists>r. format_recommendation cap [b, a] src = Inr (Some r) \<and>
            r_product r = ''Alienware Aurora R16''))"
proof (intro conjI impI)
  assume h: "(\<forall>m \<in> set ms. product_type m = ptype) \<and> any_in system_categories (lower ptype)
      \<and> systems ms \<noteq> []"
  then have ne: "ms \<noteq> []" by (auto simp: systems_def)
  with h have sys: "is_system_search ms" using is_system_search_request by blast
  from h have "systems ms \<noteq> []" by simp
  with sys have sub: "set (selected_products ms) \<subseteq> set (systems ms)"
    using select_products_systems [of ms] by (simp add: set_selected_products)
  then show "set (selected_products ms) \<subseteq> set (systems ms)" .
  from sub show "set (selected_products ms) \<inter> set (components ms) = {}"
    by (auto simp: systems_def components_def)
  from ne obtain top_product rest where tr: "selected_products ms = top_product # rest"
    using selected_products_nonempty by (cases "selected_products ms") auto
  then have "top_product \<in> set (systems ms)" using sub by auto
  then have "\<not> is_component (lower (product top_product))" by (simp add: systems_def)
  with tr show "\<exists>top_product rest. selected_products ms = top_product # rest \<and>
         \<not> is_component (lower (product top_product))" by blast
next
  assume h: "product a = ''RTX 4090'' \<and> validity_score a = 4 \<and> product_type a = ''gaming pc'' \<and>
    product b = ''Alienware Aurora R16'' \<and> validity_score b = 6 \<and> product_type b = ''gaming pc''"
  then have "selected_products [a, b] = [b]" using scenario_c_selected(1) by blast
  with h show "\<exists>r. format_recommendation cap [a, b] src = Inr (Some r) \<and>
            r_product r = ''Alienware Aurora R16''"
    by (simp add: format_recommendation_def sanitize_alienware Let_def)
next
  assume h: "product a = ''RTX 4090'' \<and> validity_score a = 4 \<and> product_type a = ''gaming pc'' \<and>
    product b = ''Alienware Aurora R16'' \<and> validity_score b = 6 \<and> product_type b = ''gaming pc''"
  then have "selected_products [b, a] = [b]" using scenario_c_selected(2) by blast
  with h show "\<exists>r. format_recommendation cap [b, a] src = Inr (Some r) \<and>
            r_product r = ''Alienware Aurora R16''"
    by (simp add: format_recommendation_def sanitize_alienware Let_def)
qed

theorem system_preference_witness:
  "any_in system_categories (lower ''gaming pc'') \<and>
   systems [sample_gpu, sample_prebuilt] \<noteq> [] \<and>
   set (selected_products [sample_gpu, sample_prebuilt]) \<subseteq> set (systems [sample_gpu, sample_prebuilt]) \<and>
   set (selected_products [sample_gpu, sample_prebuilt]) \<inter> set (components [sample_gpu, sample_prebuilt]) = {} \<and>
   map_option r_product
     (recommended (format_recommendation sample_capabilities [sample_gpu, sample_prebuilt] ''reddit'')) =
   Some ''Alienware Aurora R16''"
proof -
  have t: "\<forall>m \<in> set [sample_gpu, sample_prebuilt]. product_type m = ''gaming pc''"
    by (simp add: sample_gpu_def sample_prebuilt_def)
  have s: "systems [sample_gpu, sample_prebuilt] \<noteq> []" by (simp add: sample_systems)
  have f: "product sample_gpu = ''RTX 4090'' \<and> validity_score sample_gpu = 4 \<and>
      product_type sample_gpu = ''gaming pc'' \<and> product sample_prebuilt = ''Alienware Aurora R16'' \<and>
      validity_score sample_prebuilt = 6 \<and> product_type sample_prebuilt = ''gaming pc''"
    by (simp add: sample_gpu_def sample_prebuilt_def)
  show ?thesis
    using t s f gaming_pc_is_system
      system_preference [of "[sample_gpu, sample_prebuilt]" "''gaming pc''" sample_gpu
        sample_prebuilt sample_capabilities "''reddit''"]
    by (auto simp: recommended_def)
qed

text \<open>
  Claim C5, as stated, fails: \<open>AMD Ryzen 9 7950X3D Processor\<close> has 29 characters, so it
  is not a short name, and the stated rule does not make it a component; the category
  filter does, since its test for component keywords has no bound on the length.
\<close>

theorem component_classification_counterexample:
  "is_component (lower ''AMD Ryzen 9 7950X3D Processor'') \<and>
   \<not> claimed_is_component (lower ''AMD Ryzen 9 7950X3D Processor'')"
  by code_simp


text \<open>
  Claim C5, amended. The category filter classifies a mention by its lowercased name with
  a heuristic of its own: the mention is a component exactly when no system brand of the
  filter's list occurs in the name and either the name matches the filter's graphics-card
  pattern, contains no system keyword and has fewer than 20 characters, or the name
  contains one of the filter's component keywords and no system keyword, whatever its
  length. The components are the mentions so classified, the systems are all the others.
\<close>

theorem component_classification:
  "is_component product_name =
     (\<not> any_in system_brands product_name \<and>
      ((matches filter_gpu_re product_name \<and> \<not> matches filter_system_re product_name
          \<and> length product_name < 20)
       \<or> (any_in filter_component_terms product_name
          \<and> \<not> matches filter_system_re product_name))) \<and>
   (m \<in> set (components ms) \<longleftrightarrow> m \<in> set ms \<and> is_component (lower (product m))) \<and>
   (m \<in> set (systems ms) \<longleftrightarrow> m \<in> set ms \<and> \<not> is_component (lower (product m)))"
  by (auto simp: is_component_def Let_def components_def systems_def)

lemma sample_component_facts:
  "\<not> any_in system_brands (lower ''AMD Ryzen 9 7950X3D Processor'') \<and>
   any_in filter_component_terms (lower ''AMD Ryzen 9 7950X3D Processor'') \<and>
   \<not> matches filter_system_re (lower ''AMD Ryzen 9 7950X3D Processor'') \<and>
   \<not> length (lower ''AMD Ryzen 9 7950X3D Processor'') < 20"
  by code_simp

theorem component_classification_witness:
  "is_component (lower ''AMD Ryzen 9 7950X3D Processor'') \<and>
   any_in filter_component_terms (lower ''AMD Ryzen 9 7950X3D Processor'') \<and>
   \<not> length (lower ''AMD Ryzen 9 7950X3D Processor'') < 20 \<and>
   sample_gpu \<in> set (components [sample_gpu, sample_prebuilt]) \<and>
   sample_prebuilt \<in> set (systems [sample_gpu, sample_prebuilt])"
proof -
  have g: "is_component (lower (product sample_gpu))"
    "\<not> is_component (lower (product sample_prebuilt))"
    using is_component_rtx is_component_alienware
    by (simp_all add: sample_gpu_def sample_prebuilt_def)
  show ?thesis
    using g sample_component_facts
      component_classification [of "lower ''AMD Ryzen 9 7950X3D Processor''" sample_gpu
        "[sample_gpu, sample_prebuilt]"]
      component_classification [of "lower ''AMD Ryzen 9 7950X3D Processor''" sample_prebuilt
        "[sample_gpu, sample_prebuilt]"]
    by simp
qed

section \<open>The formatter\<close>

lemma is_space_space: "is_space CHR '' ''"
  by (simp add: is_space_def in_range_def code_point_def)

lemma set_collapse: "set (collapse b s) \<subseteq> insert CHR '' '' {c \<in> set s. \<not> is_space c}"
  by (induction s arbitrary: b) auto

lemma collapse_True_head: "collapse True s = c # r \<Longrightarrow> c \<noteq> CHR '' ''"
  using is_space_space by (induction s) (auto split: if_splits)

lemma no_double_space_Cons:
  "no_double_space (a # cs) = ((cs = [] \<or> \<not> (a = CHR '' '' \<and> hd cs = CHR '' '')) \<and> no_double_space cs)"
  by (cases cs) auto

lemma no_double_space_collapse: "no_double_space (collapse b s)"
proof (induction s arbitrary: b)
  case Nil
  then show ?case by simp
next
  case (Cons c s)
  show ?case
  proof (cases "is_space c")
    case True
    have "collapse True s = [] \<or> hd (collapse True s) \<noteq> CHR '' ''"
      using collapse_True_head [of s] by (cases "collapse True s") auto
    with True Cons.IH [of True] show ?thesis
      by (auto simp: no_double_space_Cons)
  next
    case False
    then have "c \<noteq> CHR '' ''" using is_space_space by auto
    with False Cons.IH [of False] show ?thesis
      by (auto simp: no_double_space_Cons)
  qed
qed

lemma no_double_space_append:
  "no_double_space (xs @ ys) \<Longrightarrow> no_double_space xs \<and> no_double_space ys"
proof (induction xs)
  case Nil
  then show ?case by simp
next
  case (Cons a xs)
  then show ?case by (cases xs) (auto simp: no_double_space_Cons)
qed

lemma strip_decomp: "\<exists>pre post. s = pre @ strip s @ post"
proof -
  let ?u = "dropWhile is_space s"
  have "rev ?u = takeWhile is_space (rev ?u) @ dropWhile is_space (rev ?u)" by simp
  then have "?u = rev (dropWhile is_space (rev ?u)) @ rev (takeWhile is_space (rev ?u))"
    by (metis rev_append rev_rev_ident)
  then have "s = takeWhile is_space s @ strip s @ rev (takeWhile is_space (rev ?u))"
    by (metis strip_def takeWhile_dropWhile_id)
  then show ?thesis by blast
qed

lemma set_strip: "set (strip s) \<subseteq> set s"
  using strip_decomp [of s] by (metis Un_iff set_append subsetI)

lemma no_double_space_strip: "no_double_space s \<Longrightarrow> no_double_space (strip s)"
  using strip_decomp [of s] no_double_space_append by metis

lemma strip_ends:
  assumes "strip s \<noteq> []"
  shows "\<not> is_space (hd (strip s))" "\<not> is_space (last (strip s))"
proof -
  let ?u = "dropWhile is_space s"
  let ?v = "dropWhile is_space (rev ?u)"
  have v: "?v \<noteq> []" using assms by (simp add: strip_def)
  then have "\<not> is_space (hd ?v)" by (metis hd_dropWhile)
  then show "\<not> is_space (last (strip s))" using v by (simp add: strip_def last_rev)
  have u: "?u \<noteq> []"
  proof
    assume e: "?u = []"
    have "?v = []" unfolding e by simp
    with v show False by blast
  qed
  then have hu: "\<not> is_space (hd ?u)" by (metis hd_dropWhile)
  have "rev ?u = takeWhile is_space (rev ?u) @ ?v" by simp
  then have "?u = rev ?v @ rev (takeWhile is_space (rev ?u))"
    by (metis rev_append rev_rev_ident)
  then have "hd ?u = hd (rev ?v)" using v by (metis hd_append2 rev_is_Nil_conv)
  with hu show "\<not> is_space (hd (strip s))" by (simp add: strip_def)
qed

lemma sanitize_chars:
  assumes "c \<in> set (sanitize s)"
  shows "is_alnum c \<or> c = CHR ''_'' \<or> c = CHR '' '' \<or> c = CHR ''-''"
proof -
  from assms have "c \<in> set (collapse False (filter (\<lambda>c. is_word c \<or> is_space c \<or> c = CHR ''-'') s))"
    using set_strip by (auto simp: sanitize_def)
  then have "c = CHR '' '' \<or> (c \<in> set (filter (\<lambda>c. is_word c \<or> is_space c \<or> c = CHR ''-'') s) \<and> \<not> is_space c)"
    using set_collapse by fastforce
  then show ?thesis by (auto simp: is_word_def)
qed

lemma sanitize_no_double_space: "no_double_space (sanitize s)"
  by (simp add: sanitize_def no_double_space_strip no_double_space_collapse)

lemma sanitize_ends:
  assumes "sanitize s \<noteq> []"
  shows "hd (sanitize s) \<noteq> CHR '' '' \<and> last (sanitize s) \<noteq> CHR '' ''"
proof -
  let ?t = "collapse False (filter (\<lambda>c. is_word c \<or> is_space c \<or> c = CHR ''-'') s)"
  have ne: "strip ?t \<noteq> []" using assms by (simp add: sanitize_def)
  have "\<not> is_space (hd (strip ?t))" "\<not> is_space (last (strip ?t))"
    using strip_ends [OF ne] by simp_all
  then show ?thesis using is_space_space by (auto simp: sanitize_def)
qed

lemma format_recommendation_cases:
  assumes "selected_products ms = top_product # rest"
  shows "format_recommendation cap ms src =
     (if length (product top_product) < 3 then Inr None
      else Inr (Some
        \<lparr>r_product = sanitize (product top_product),
         r_description = generate_ai_description cap (sanitize (product top_product))
            (description top_product) (product_type top_product)
            (request_attributes top_product),
         r_sources = collect_sources top_product (mentions_after_sort ms) src,
         r_buy_link = generate_amazon_link (sanitize (product top_product)),
         r_image_url = generate_image_url (sanitize (product top_product)),
         r_validity_score = validity_score top_product,
         r_attributes = attributes top_product\<rparr>))"
proof -
  have "ms \<noteq> []" using assms by (auto simp: selected_products_Nil)
  then show ?thesis using assms by (auto simp: format_recommendation_def Let_def)
qed

lemma format_recommendation_Some:
  assumes "format_recommendation cap ms src = Inr (Some r)"
  obtains top_product rest where "selected_products ms = top_product # rest"
    "3 \<le> length (product top_product)"
    "r_product r = sanitize (product top_product)"
    "r_sources r = collect_sources top_product (mentions_after_sort ms) src"
proof -
  have ne: "ms \<noteq> []" using assms by (auto simp: format_recommendation_def)
  then obtain t rest where tr: "selected_products ms = t # rest"
    using selected_products_nonempty by (cases "selected_products ms") auto
  show ?thesis
    using assms that [OF tr] format_recommendation_cases [OF tr, of cap src]
    by (auto split: if_splits)
qed

lemma sort_desc_head_max:
  assumes "sort_desc key xs = t # rest"
  shows "\<forall>x \<in> set xs. key x \<le> key t"
proof -
  from assms have e: "sort_key key (rev xs) = rev rest @ [t]"
    by (metis sort_desc_def rev_rev_ident rev.simps(2))
  have "sorted (map key (sort_key key (rev xs)))" by simp
  then have "sorted (map key (rev rest) @ [key t])" by (simp add: e)
  then have "\<forall>y \<in> set (map key (rev rest)). y \<le> key t" by (simp add: sorted_append)
  moreover have "set xs = set (rev rest @ [t])" by (metis e set_sort set_rev)
  ultimately show ?thesis by auto
qed

lemma sample_format_result:
  "format_recommendation sample_capabilities [sample_top, sample_low] ''reddit'' =
     Inr (Some sample_recommendation)"
  by code_simp


subsection \<open>The product field\<close>

text \<open>
  Claim C6, as stated, fails: the name \<open>Dyson_V15 Detect\<close> is recommended with its
  underscore, which is neither alphanumeric, nor a space, nor a hyphen (\<open>\w\<close> in the
  sanitizing pattern matches the underscore).
\<close>

theorem product_characters_counterexample:
  "map_option r_product
     (recommended (format_recommendation sample_capabilities [sample_underscore] ''reddit'')) =
     Some ''Dyson_V15 Detect'' \<and>
   \<not> only_alnum_space_hyphen ''Dyson_V15 Detect''"
  by code_simp


text \<open>
  Claim C6, amended. In every recommendation the formatter returns, each character of the
  product field is alphanumeric, an underscore, a space or a hyphen; no two spaces are
  adjacent; and the field neither starts nor ends with a space.
\<close>

theorem product_characters:
  "format_recommendation cap ms src = Inr (Some r) \<longrightarrow>
     (\<forall>c \<in> set (r_product r). is_alnum c \<or> c = CHR ''_'' \<or> c = CHR '' '' \<or> c = CHR ''-'') \<and>
     no_double_space (r_product r) \<and>
     (r_product r \<noteq> [] \<longrightarrow> hd (r_product r) \<noteq> CHR '' '' \<and> last (r_product r) \<noteq> CHR '' '')"
proof
  assume a: "format_recommendation cap ms src = Inr (Some r)"
  obtain name where n: "r_product r = sanitize name"
    using format_recommendation_Some [OF a] by blast
  show "(\<forall>c \<in> set (r_product r). is_alnum c \<or> c = CHR ''_'' \<or> c = CHR '' '' \<or> c = CHR ''-'') \<and>
     no_double_space (r_product r) \<and>
     (r_product r \<noteq> [] \<longrightarrow> hd (r_product r) \<noteq> CHR '' '' \<and> last (r_product r) \<noteq> CHR '' '')"
    unfolding n using sanitize_chars [of _ name] sanitize_no_double_space [of name]
      sanitize_ends [of name] by blast
qed

theorem product_characters_witness:
  "format_recommendation sample_capabilities [sample_top, sample_low] ''reddit'' =
     Inr (Some sample_recommendation) \<and>
   list_all (\<lambda>c. is_alnum c \<or> c = CHR ''_'' \<or> c = CHR '' '' \<or> c = CHR ''-'')
     (r_product sample_recommendation) \<and>
   no_double_space (r_product sample_recommendation) \<and>
   r_product sample_recommendation \<noteq> [] \<and>
   hd (r_product sample_recommendation) \<noteq> CHR '' '' \<and>
   last (r_product sample_recommendation) \<noteq> CHR '' ''"
proof -
  have ne: "r_product sample_recommendation \<noteq> []" by (simp add: sample_recommendation_def)
  show ?thesis
    using ne sample_format_result
      product_characters [of sample_capabilities "[sample_top, sample_low]" "''reddit''"
        sample_recommendation]
    by (simp add: list_all_iff)
qed

subsection \<open>The winner\<close>

text \<open>
  What \<open>format_recommendation\<close> returns. It raises no exception. It returns \<open>None\<close> for
  an empty list. Otherwise the winner is the first mention of the filtered list sorted by
  descending score, so no selected mention has a higher score, and the length test that
  decides between \<open>None\<close> and a recommendation for the winner reads the name as extracted.
\<close>

lemma format_recommendation_outcome:
  "format_recommendation cap ms src \<noteq> Inl IndexError \<and>
   (ms = [] \<longrightarrow> format_recommendation cap ms src = Inr None) \<and>
   (ms \<noteq> [] \<longrightarrow>
      (\<exists>top_product rest. selected_products ms = top_product # rest \<and>
         (\<forall>m \<in> set (selected_products ms). score m \<le> score top_product) \<and>
         (length (product top_product) < 3 \<longrightarrow> format_recommendation cap ms src = Inr None) \<and>
         (3 \<le> length (product top_product) \<longrightarrow>
            (\<exists>r. format_recommendation cap ms src = Inr (Some r) \<and>
                 r_product r = sanitize (product top_product) \<and>
                 r_validity_score r = validity_score top_product \<and>
                 r_attributes r = attributes top_product \<and>
                 r_description r =
                   generate_ai_description cap (sanitize (product top_product))
                     (description top_product) (product_type top_product)
                     (request_attributes top_product)))))"
proof (cases "ms = []")
  case True
  then show ?thesis by (simp add: format_recommendation_def)
next
  case False
  then obtain top_product rest where tr: "selected_products ms = top_product # rest"
    using selected_products_nonempty by (cases "selected_products ms") auto
  have "\<forall>x \<in> set (fst (select_products ms)). score x \<le> score top_product"
    using sort_desc_head_max [of score "fst (select_products ms)" top_product rest] tr
    by (simp add: selected_products_def)
  then have mx: "\<forall>m \<in> set (selected_products ms). score m \<le> score top_product"
    by (simp add: set_selected_products)
  note fc = format_recommendation_cases [OF tr, of cap src]
  have "format_recommendation cap ms src \<noteq> Inl IndexError" using fc by simp
  moreover have "\<exists>top_product rest. selected_products ms = top_product # rest \<and>
         (\<forall>m \<in> set (selected_products ms). score m \<le> score top_product) \<and>
         (length (product top_product) < 3 \<longrightarrow> format_recommendation cap ms src = Inr None) \<and>
         (3 \<le> length (product top_product) \<longrightarrow>
            (\<exists>r. format_recommendation cap ms src = Inr (Some r) \<and>
                 r_product r = sanitize (product top_product) \<and>
                 r_validity_score r = validity_score top_product \<and>
                 r_attributes r = attributes top_product \<and>
                 r_description r =
                   generate_ai_description cap (sanitize (product top_product))
                     (description top_product) (product_type top_product)
                     (request_attributes top_product)))"
    using tr mx fc by (intro exI [of _ top_product] exI [of _ rest]) simp
  ultimately show ?thesis using False by blast
qed

lemma sample_short_pipeline:
  "map (\<lambda>m. (product m, validity_score m))
     (process_reddit_data sample_capabilities [sample_short_thread] ''vacuum cleaner''
        [''cordless'']) = [(''Z9 (?!)'', 2)] \<and>
   map_option r_product
     (recommended (format_recommendation sample_capabilities
        (process_reddit_data sample_capabilities [sample_short_thread] ''vacuum cleaner''
           [''cordless'']) ''reddit'')) = Some ''Z9''"
  by code_simp

lemma sample_punctuation_pipeline:
  "map (\<lambda>m. (product m, validity_score m))
     (process_reddit_data sample_capabilities [sample_punctuation_thread] ''vacuum cleaner''
        [''cordless'']) = [(''!!!!!!'', 3)] \<and>
   map_option (\<lambda>r. (r_product r, r_buy_link r))
     (recommended (format_recommendation sample_capabilities
        (process_reddit_data sample_capabilities [sample_punctuation_thread] ''vacuum cleaner''
           [''cordless'']) ''reddit'')) =
     Some ([], ''https://www.amazon.com/s?k=&tag=allurecomreco-20'')"
  by code_simp

lemma sample_sanitized_lengths:
  "sanitize ''Z9 (?!)'' = ''Z9'' \<and> sanitize ''!!!!!!'' = []"
  by code_simp

text \<open>
  Claim C7 at two inputs where the code departs from it. A forum comment yields the
  candidate \<open>Z9 (?!)\<close>, which becomes a mention with validity 2; its sanitized name \<open>Z9\<close>
  has 2 characters, and \<open>format_recommendation\<close> returns a recommendation for \<open>Z9\<close>.
  Another comment yields the candidate \<open>!!!!!!\<close>, which becomes a mention with validity
  3; its sanitized name is empty, and a recommendation with an empty product is returned.
  The test \<open>len(product_model) < 3\<close> stands under the comment \<open>Make sure the product model
  is valid and sanitized\<close> but is made before the name is sanitized.
\<close>

theorem short_sanitized_name_recommended:
  "map (\<lambda>m. (product m, validity_score m))
     (process_reddit_data sample_capabilities [sample_short_thread] ''vacuum cleaner''
        [''cordless'']) = [(''Z9 (?!)'', 2)] \<and>
   length (sanitize ''Z9 (?!)'') < 3 \<and>
   map_option r_product
     (recommended (format_recommendation sample_capabilities
        (process_reddit_data sample_capabilities [sample_short_thread] ''vacuum cleaner''
           [''cordless'']) ''reddit'')) = Some ''Z9'' \<and>
   map (\<lambda>m. (product m, validity_score m))
     (process_reddit_data sample_capabilities [sample_punctuation_thread] ''vacuum cleaner''
        [''cordless'']) = [(''!!!!!!'', 3)] \<and>
   length (sanitize ''!!!!!!'') < 3 \<and>
   map_option (\<lambda>r. (r_product r, r_buy_link r))
     (recommended (format_recommendation sample_capabilities
        (process_reddit_data sample_capabilities [sample_punctuation_thread] ''vacuum cleaner''
           [''cordless'']) ''reddit'')) =
     Some ([], ''https://www.amazon.com/s?k=&tag=allurecomreco-20'')"
  using sample_short_pipeline sample_punctuation_pipeline sample_sanitized_lengths by simp

subsection \<open>The source list\<close>















section \<open>Duplicate removal\<close>

lemma dict_get_map_of: "dict_get d k = map_of d k"
  by (induction d) auto

lemma dict_get_None_iff: "dict_get d k = None \<longleftrightarrow> k \<notin> fst ` set d"
  by (simp add: dict_get_map_of map_of_eq_None_iff)

lemma dict_set_fresh: "k \<notin> fst ` set d \<Longrightarrow> dict_set d k v = d @ [(k, v)]"
  by (induction d) auto

lemma map_fst_dict_set_if:
  "map fst (dict_set d k v) = (if k \<in> fst ` set d then map fst d else map fst d @ [k])"
proof (induction d)
  case Nil
  then show ?case by simp
next
  case (Cons e d)
  then show ?case by (cases e) force
qed

lemma map_fst_dict_set: "k \<in> fst ` set d \<Longrightarrow> map fst (dict_set d k v) = map fst d"
  by (simp add: map_fst_dict_set_if)

lemma map_of_dict_set: "map_of (dict_set d k v) = (map_of d)(k \<mapsto> v)"
  by (induction d) (auto simp: fun_eq_iff)

lemma find_append:
  "find P (xs @ ys) = (case find P xs of None \<Rightarrow> find P ys | Some x \<Rightarrow> Some x)"
  by (induction xs) auto

lemma find_refine:
  assumes "find P xs = Some r" "\<forall>x \<in> set xs. Q x \<longrightarrow> P x" "Q r"
  shows "find Q (xs @ ys) = Some r"
  using assms
proof (induction xs)
  case Nil
  then show ?case by simp
next
  case (Cons x xs)
  then show ?case by (cases "P x") auto
qed

lemma first_best_other:
  assumes "first_best key xs k' = Some r" "key m \<noteq> k'"
  shows "first_best key (xs @ [m]) k' = Some r"
proof -
  let ?P = "\<lambda>x. key x = k' \<and> (\<forall>m' \<in> set xs. key m' = k' \<longrightarrow> score m' \<le> score x)"
  let ?Q = "\<lambda>x. key x = k' \<and> (\<forall>m' \<in> set (xs @ [m]). key m' = k' \<longrightarrow> score m' \<le> score x)"
  have f: "find ?P xs = Some r" using assms(1) by (simp add: first_best_def)
  then have "?P r" by (auto simp: find_Some_iff)
  then have q: "?Q r" using assms(2) by auto
  have imp: "\<forall>x \<in> set xs. ?Q x \<longrightarrow> ?P x" by simp
  have "find ?Q (xs @ [m]) = Some r" by (rule find_refine [OF f imp q])
  then show ?thesis by (simp add: first_best_def)
qed

lemma first_best_fresh:
  assumes "key m \<notin> key ` set xs"
  shows "first_best key (xs @ [m]) (key m) = Some m"
proof -
  let ?Q = "\<lambda>x. key x = key m \<and> (\<forall>m' \<in> set (xs @ [m]). key m' = key m \<longrightarrow> score m' \<le> score x)"
  have nk: "\<forall>x \<in> set xs. key x \<noteq> key m" using assms by (metis image_eqI)
  then have "find ?Q xs = None" unfolding find_None_iff by blast
  moreover have "?Q m" using nk by auto
  ultimately show ?thesis by (simp add: first_best_def find_append)
qed

lemma first_best_replace:
  assumes "first_best key xs (key m) = Some kept" "score kept < score m"
  shows "first_best key (xs @ [m]) (key m) = Some m"
proof -
  let ?P = "\<lambda>x. key x = key m \<and> (\<forall>m' \<in> set xs. key m' = key m \<longrightarrow> score m' \<le> score x)"
  let ?Q = "\<lambda>x. key x = key m \<and> (\<forall>m' \<in> set (xs @ [m]). key m' = key m \<longrightarrow> score m' \<le> score x)"
  have "find ?P xs = Some kept" using assms(1) by (simp add: first_best_def)
  then have k: "?P kept" "kept \<in> set xs" by (auto simp: find_Some_iff)
  have "\<not> ?Q x" if "x \<in> set xs" for x
  proof
    assume q: "?Q x"
    then have "score m \<le> score x" by simp
    moreover from q that k(1) have "score x \<le> score kept" by auto
    ultimately show False using assms(2) by simp
  qed
  then have "find ?Q xs = None" by (auto simp: find_None_iff)
  moreover have "?Q m" using k(1) assms(2) by auto
  ultimately show ?thesis by (simp add: first_best_def find_append)
qed

lemma first_best_keep:
  assumes "first_best key xs (key m) = Some kept" "\<not> score kept < score m"
  shows "first_best key (xs @ [m]) (key m) = Some kept"
proof -
  let ?P = "\<lambda>x. key x = key m \<and> (\<forall>m' \<in> set xs. key m' = key m \<longrightarrow> score m' \<le> score x)"
  let ?Q = "\<lambda>x. key x = key m \<and> (\<forall>m' \<in> set (xs @ [m]). key m' = key m \<longrightarrow> score m' \<le> score x)"
  have f: "find ?P xs = Some kept" using assms(1) by (simp add: first_best_def)
  then have "?P kept" by (auto simp: find_Some_iff)
  then have q: "?Q kept" using assms(2) by auto
  have imp: "\<forall>x \<in> set xs. ?Q x \<longrightarrow> ?P x" by simp
  have "find ?Q (xs @ [m]) = Some kept" by (rule find_refine [OF f imp q])
  then show ?thesis by (simp add: first_best_def)
qed

lemma keep_best_invariant:
  assumes "dedup_invariant key xs d"
  shows "dedup_invariant key (xs @ [m]) (keep_best key d m)"
proof -
  from assms have d: "distinct (map fst d)" and dom: "fst ` set d = key ` set xs"
    and best: "\<And>k r. map_of d k = Some r \<Longrightarrow> first_best key xs k = Some r"
    by (auto simp: dedup_invariant_def)
  show ?thesis
  proof (cases "dict_get d (key m)")
    case None
    then have fresh: "key m \<notin> fst ` set d" by (simp add: dict_get_None_iff)
    then have e: "keep_best key d m = d @ [(key m, m)]"
      using None by (simp add: keep_best_def Let_def dict_set_fresh)
    have "first_best key (xs @ [m]) k = Some r" if "map_of (d @ [(key m, m)]) k = Some r" for k r
    proof (cases "k = key m")
      case True
      then have "map_of d k = None" using fresh by (simp add: map_of_eq_None_iff)
      with that True have "r = m" by (simp add: map_add_def)
      then show ?thesis using True first_best_fresh [of key m xs] fresh dom by simp
    next
      case False
      with that have "map_of d k = Some r" by (auto simp: map_add_def split: option.splits)
      then show ?thesis using best first_best_other False by metis
    qed
    then show ?thesis using d dom fresh unfolding dedup_invariant_def e by auto
  next
    case (Some kept)
    then have mk: "map_of d (key m) = Some kept" by (simp add: dict_get_map_of)
    then have inn: "key m \<in> fst ` set d" by (metis map_of_eq_None_iff option.distinct(1))
    have bk: "first_best key xs (key m) = Some kept" using best mk by blast
    show ?thesis
    proof (cases "score kept < score m")
      case True
      then have e: "keep_best key d m = dict_set d (key m) m"
        using Some by (simp add: keep_best_def Let_def)
      have "first_best key (xs @ [m]) k = Some r"
        if "map_of (dict_set d (key m) m) k = Some r" for k r
      proof (cases "k = key m")
        case True
        with that have "r = m" by (simp add: map_of_dict_set)
        then show ?thesis using True first_best_replace [OF bk \<open>score kept < score m\<close>] by simp
      next
        case False
        with that have "map_of d k = Some r" by (simp add: map_of_dict_set)
        then show ?thesis using best first_best_other False by metis
      qed
      moreover have "fst ` set (dict_set d (key m) m) = fst ` set d"
        using map_fst_dict_set [OF inn, of m] by (metis list.set_map)
      ultimately show ?thesis
        using d dom inn unfolding dedup_invariant_def e
        by (auto simp: map_fst_dict_set)
    next
      case False
      then have e: "keep_best key d m = d"
        using Some by (simp add: keep_best_def Let_def)
      have "first_best key (xs @ [m]) k = Some r" if "map_of d k = Some r" for k r
      proof (cases "k = key m")
        case True
        with that mk have "r = kept" by simp
        then show ?thesis using True first_best_keep [OF bk False] by simp
      next
        case False
        then show ?thesis using that best first_best_other by metis
      qed
      then show ?thesis using d dom inn unfolding dedup_invariant_def e by auto
    qed
  qed
qed

lemma foldl_keep_best_invariant: "dedup_invariant key ms (foldl (keep_best key) [] ms)"
proof (induction ms rule: rev_induct)
  case Nil
  then show ?case by (simp add: dedup_invariant_def)
next
  case (snoc m ms)
  then show ?case using keep_best_invariant by fastforce
qed

lemma remove_duplicates_survivors:
  "distinct (map key (remove_duplicates key ms)) \<and>
   key ` set (remove_duplicates key ms) = key ` set ms \<and>
   (\<forall>r \<in> set (remove_duplicates key ms). first_best key ms (key r) = Some r)"
proof -
  let ?d = "foldl (keep_best key) [] ms"
  from foldl_keep_best_invariant [of key ms]
  have d: "distinct (map fst ?d)" and dom: "fst ` set ?d = key ` set ms"
    and best: "\<And>k r. map_of ?d k = Some r \<Longrightarrow> first_best key ms k = Some r"
    by (auto simp: dedup_invariant_def)
  have kr: "first_best key ms k = Some r \<and> key r = k" if "(k, r) \<in> set ?d" for k r
  proof -
    from that d have "map_of ?d k = Some r" by simp
    then have b: "first_best key ms k = Some r" by (rule best)
    then have "key r = k" by (auto simp: first_best_def find_Some_iff)
    with b show ?thesis by simp
  qed
  then have same: "map key (map snd ?d) = map fst ?d" by auto
  have "distinct (map key (remove_duplicates key ms))"
    using d same by (simp add: remove_duplicates_def dict_values_def del: map_map)
  moreover have "key ` set (remove_duplicates key ms) = key ` set ms"
    using dom same by (metis remove_duplicates_def dict_values_def list.set_map)
  moreover have "\<forall>r \<in> set (remove_duplicates key ms). first_best key ms (key r) = Some r"
    using kr by (fastforce simp: remove_duplicates_def dict_values_def)
  ultimately show ?thesis by blast
qed

lemma forum_duplicates_removed:
  "distinct (map (\<lambda>m. normalize_name (product m)) (process_reddit_data cap threads ptype attrs)) \<and>
   (\<forall>r \<in> set (process_reddit_data cap threads ptype attrs).
      \<forall>m \<in> score_reddit (product_type_terms ptype attrs) ` set (collect_reddit cap threads ptype attrs).
        normalize_name (product m) = normalize_name (product r) \<longrightarrow> score m \<le> score r)"
proof -
  let ?sorted = "sort_desc (\<lambda>x. (score x, sentiment x, upvotes x))
      (map (score_reddit (product_type_terms ptype attrs)) (collect_reddit cap threads ptype attrs))"
  have e: "process_reddit_data cap threads ptype attrs = remove_duplicates reddit_key ?sorted"
    by (simp add: process_reddit_data_def Let_def)
  note s = remove_duplicates_survivors [of reddit_key ?sorted]
  have k: "reddit_key = (\<lambda>m. normalize_name (product m))"
    by (simp add: fun_eq_iff reddit_key_def)
  have "distinct (map (\<lambda>m. normalize_name (product m)) (process_reddit_data cap threads ptype attrs))"
    using s unfolding e k by blast
  moreover have "score m \<le> score r"
    if r: "r \<in> set (process_reddit_data cap threads ptype attrs)"
    and m: "m \<in> score_reddit (product_type_terms ptype attrs) ` set (collect_reddit cap threads ptype attrs)"
    and eq: "normalize_name (product m) = normalize_name (product r)" for r m
  proof -
    from r s have "first_best reddit_key ?sorted (reddit_key r) = Some r" unfolding e by blast
    then have "\<forall>m' \<in> set ?sorted. reddit_key m' = reddit_key r \<longrightarrow> score m' \<le> score r"
      unfolding first_best_def find_Some_iff by blast
    moreover from m have "m \<in> set ?sorted" by (simp add: set_sort_desc)
    ultimately show ?thesis using eq by (simp add: reddit_key_def)
  qed
  ultimately show ?thesis by blast
qed

lemma sample_forum_comparison:
  "map product (process_reddit_data sample_capabilities [sample_comparison_thread] ''smartphone''
     [''camera'']) = [''iPhone 15 Pro'']"
  by code_simp

text \<open>
  Claim C3 at an input where the code departs from it. The video transcript yields the
  candidates \<open>iPhone 15 Pro\<close> and \<open>iPhone-15-Pro\<close>, whose normalized names (non-alphanumeric
  characters stripped, lowercased) are equal. \<open>process_youtube_data\<close> returns both: its
  key is the lowercased, trimmed name. \<open>process_reddit_data\<close>, whose key is the
  normalized name, returns one for a comment with the same text.
\<close>

theorem video_duplicates_survive:
  "normalize_name ''iPhone 15 Pro'' = normalize_name ''iPhone-15-Pro'' \<and>
   map product (process_youtube_data sample_capabilities sample_videos ''smartphone'' [''camera'']) =
     [''iPhone 15 Pro'', ''iPhone-15-Pro''] \<and>
   map product (process_reddit_data sample_capabilities [sample_comparison_thread] ''smartphone''
     [''camera'']) = [''iPhone 15 Pro'']"
proof -
  have "normalize_name ''iPhone 15 Pro'' = normalize_name ''iPhone-15-Pro''"
    by code_simp
  moreover have "map product (process_youtube_data sample_capabilities sample_videos ''smartphone''
      [''camera'']) = [''iPhone 15 Pro'', ''iPhone-15-Pro'']"
    using arg_cong [OF sample_youtube_result, of "map fst"] by (simp add: comp_def)
  ultimately show ?thesis using sample_forum_comparison by simp
qed


end
